theory Spec2Isabelle
  imports Main "HOL-Library.Multiset" "HOL-Library.List_Lexorder"
begin

section \<open>The localStorage-backed mock API of the task manager\<close>

text \<open>
  The development embeds \<^verbatim>\<open>services/mockApi.js\<close> (the mock authentication and
  task services kept in the browser's localStorage) and, from
  \<^verbatim>\<open>pages/Dashboard.jsx\<close>, the task form's \<^verbatim>\<open>validateForm\<close> and
  \<^verbatim>\<open>handleSubmit\<close>.

  JavaScript objects are finite maps from property names to values. The values
  that occur in users, tasks and request payloads are strings, \<^verbatim>\<open>null\<close> and
  \<^verbatim>\<open>undefined\<close>. A string is a sequence of code units. A string whose code
  units are all below 256 is \<open>JStr s\<close>, with \<open>s\<close> listing the units as
  \<^typ>\<open>char\<close>s. A string with a code unit above 255 is \<open>JWide p n r\<close>: the
  units \<open>p\<close> before the first such unit, that unit as \<open>256 + n\<close>, and the units
  \<open>r\<close> after it. Every string has exactly one representation, so \<^verbatim>\<open>===\<close> on
  values is equality. The inputs of the task form are strings of the first kind.

  Every service function is \<^verbatim>\<open>async\<close>: an exception raised in its body
  rejects the promise it returns. The model returns \<open>Inl\<close> of the exception and
  the store as it is when the exception is raised, and \<open>Inr\<close> of the resolved
  envelope and the store after the call otherwise.
  \<^verbatim>\<open>simulateDelay\<close> only postpones the resolution and is the identity here.
\<close>

subsection \<open>Values and objects\<close>

datatype jsval = JUndefined | JNull | JStr string | JWide string nat "nat list"

type_synonym obj = "string \<rightharpoonup> jsval"

datatype error = TypeError | InvalidCharacterError

text \<open>Property read \<^verbatim>\<open>o.k\<close>: a missing property reads as \<^verbatim>\<open>undefined\<close>.\<close>

definition get :: "obj \<Rightarrow> string \<Rightarrow> jsval" where
  "get ob k = (case ob k of None \<Rightarrow> JUndefined | Some v \<Rightarrow> v)"

text \<open>Truthiness, and \<^verbatim>\<open>a || b\<close>.\<close>

fun truthy :: "jsval \<Rightarrow> bool" where
  "truthy (JStr s) = (s \<noteq> [])"
| "truthy (JWide p n r) = True"
| "truthy JUndefined = False"
| "truthy JNull = False"

definition js_or :: "jsval \<Rightarrow> jsval \<Rightarrow> jsval" where
  "js_or a b = (if truthy a then a else b)"

text \<open>
  The code units of \<^verbatim>\<open>ToString(v)\<close>, the string that \<^verbatim>\<open>btoa\<close>,
  \<^verbatim>\<open>localeCompare\<close> and the string methods work on, and whether a value is a
  string (only a string has the methods \<^verbatim>\<open>toLowerCase\<close> and
  \<^verbatim>\<open>localeCompare\<close>).
\<close>

fun units :: "jsval \<Rightarrow> nat list" where
  "units (JStr s) = map of_char s"
| "units (JWide p n r) = map of_char p @ (256 + n) # r"
| "units JUndefined = map of_char ''undefined''"
| "units JNull = map of_char ''null''"

fun isString :: "jsval \<Rightarrow> bool" where
  "isString (JStr s) = True"
| "isString (JWide p n r) = True"
| "isString JUndefined = False"
| "isString JNull = False"

text \<open>
  \<^verbatim>\<open>JSON.parse(JSON.stringify(o))\<close> on a flat object: a property whose value
  is \<^verbatim>\<open>undefined\<close> is dropped.
\<close>

definition jsonify :: "obj \<Rightarrow> obj" where
  "jsonify ob = (\<lambda>k. case ob k of Some JUndefined \<Rightarrow> None | r \<Rightarrow> r)"

subsection \<open>Array helpers whose callback may throw\<close>

fun findIndex :: "('a \<Rightarrow> bool) \<Rightarrow> 'a list \<Rightarrow> nat option" where
  "findIndex P [] = None"
| "findIndex P (x # xs) =
     (if P x then Some 0 else map_option Suc (findIndex P xs))"

fun findIndexE :: "('a \<Rightarrow> error + bool) \<Rightarrow> 'a list \<Rightarrow> error + nat option" where
  "findIndexE P [] = Inr None"
| "findIndexE P (x # xs) =
     (case P x of
        Inl e \<Rightarrow> Inl e
      | Inr True \<Rightarrow> Inr (Some 0)
      | Inr False \<Rightarrow>
          (case findIndexE P xs of
             Inl e \<Rightarrow> Inl e
           | Inr r \<Rightarrow> Inr (map_option Suc r)))"

fun findE :: "('a \<Rightarrow> error + bool) \<Rightarrow> 'a list \<Rightarrow> error + 'a option" where
  "findE P [] = Inr None"
| "findE P (x # xs) =
     (case P x of
        Inl e \<Rightarrow> Inl e
      | Inr True \<Rightarrow> Inr (Some x)
      | Inr False \<Rightarrow> findE P xs)"

fun filterE :: "('a \<Rightarrow> error + bool) \<Rightarrow> 'a list \<Rightarrow> error + 'a list" where
  "filterE P [] = Inr []"
| "filterE P (x # xs) =
     (case P x of
        Inl e \<Rightarrow> Inl e
      | Inr b \<Rightarrow>
          (case filterE P xs of
             Inl e \<Rightarrow> Inl e
           | Inr r \<Rightarrow> Inr (if b then x # r else r)))"

subsection \<open>The store\<close>

text \<open>
  The four localStorage entries the services use. An entry that was never set, or
  was removed, is the empty array for users and tasks and \<open>None\<close> for the current
  user and the token.
\<close>

record store =
  mock_users :: "obj list"
  mock_tasks :: "obj list"
  mock_currentUser :: "obj option"
  mock_token :: "string option"

definition getUsers :: "store \<Rightarrow> obj list" where
  "getUsers s = mock_users s"

definition saveUsers :: "obj list \<Rightarrow> store \<Rightarrow> store" where
  "saveUsers users s = s\<lparr>mock_users := map jsonify users\<rparr>"

definition getTasks :: "store \<Rightarrow> obj list" where
  "getTasks s = mock_tasks s"

definition saveTasks :: "obj list \<Rightarrow> store \<Rightarrow> store" where
  "saveTasks tasks s = s\<lparr>mock_tasks := map jsonify tasks\<rparr>"

definition getCurrentUser :: "store \<Rightarrow> obj option" where
  "getCurrentUser s = mock_currentUser s"

definition setCurrentUser :: "obj \<Rightarrow> store \<Rightarrow> store" where
  "setCurrentUser user s = s\<lparr>mock_currentUser := Some (jsonify user)\<rparr>"

definition clearCurrentUser :: "store \<Rightarrow> store" where
  "clearCurrentUser s = s\<lparr>mock_currentUser := None\<rparr>"

definition setToken :: "string \<Rightarrow> store \<Rightarrow> store" where
  "setToken token s = s\<lparr>mock_token := Some token\<rparr>"

definition removeToken :: "store \<Rightarrow> store" where
  "removeToken s = s\<lparr>mock_token := None\<rparr>"

subsection \<open>Response envelopes\<close>

record stats =
  total :: nat
  pending :: nat
  in_progress :: nat
  completed :: nat

datatype payload =
    AuthData string obj
  | ObjData obj
  | ListData "obj list" nat
  | StatsData stats

record envelope =
  success :: bool
  data :: "payload option"
  message :: "string option"

definition failure :: "string \<Rightarrow> envelope" where
  "failure m = \<lparr>success = False, data = None, message = Some m\<rparr>"

definition ok_data :: "payload \<Rightarrow> envelope" where
  "ok_data d = \<lparr>success = True, data = Some d, message = None\<rparr>"

definition ok_message :: "string \<Rightarrow> envelope" where
  "ok_message m = \<lparr>success = True, data = None, message = Some m\<rparr>"

text \<open>What a call comes to: the exception and the store it leaves, or the envelope
  and the store it leaves.\<close>

type_synonym result = "error \<times> store + envelope \<times> store"

subsection \<open>The credential codec\<close>

text \<open>
  The browser's \<^verbatim>\<open>btoa\<close>: base64 of the code units of its argument, and an
  \<^verbatim>\<open>InvalidCharacterError\<close> when one of them is above 255. So
  \<^verbatim>\<open>hashPassword\<close> and \<^verbatim>\<open>verifyPassword\<close> throw on such a password.
\<close>

definition b64chars :: string where
  "b64chars = ''ABCDEFGHIJKLMNOPQRSTUVWXYZabcdefghijklmnopqrstuvwxyz0123456789+/''"

definition b64digit :: "nat \<Rightarrow> char" where
  "b64digit n = b64chars ! (n mod 64)"

fun b64 :: "nat list \<Rightarrow> string" where
  "b64 (a # b # c # r) =
     (let n = a * 65536 + b * 256 + c
      in b64digit (n div 262144) # b64digit (n div 4096) # b64digit (n div 64) #
         b64digit n # b64 r)"
| "b64 [a, b] =
     (let n = a * 65536 + b * 256
      in [b64digit (n div 262144), b64digit (n div 4096), b64digit (n div 64), CHR ''=''])"
| "b64 [a] =
     (let n = a * 65536
      in [b64digit (n div 262144), b64digit (n div 4096), CHR ''='', CHR ''=''])"
| "b64 [] = []"

definition encodable :: "jsval \<Rightarrow> bool" where
  "encodable v = list_all (\<lambda>u. u < 256) (units v)"

definition btoa :: "jsval \<Rightarrow> error + string" where
  "btoa v = (if encodable v then Inr (b64 (units v)) else Inl InvalidCharacterError)"

definition hashPassword :: "jsval \<Rightarrow> error + string" where
  "hashPassword password = btoa password"

definition verifyPassword :: "jsval \<Rightarrow> jsval \<Rightarrow> error + bool" where
  "verifyPassword password hashed =
     (case btoa password of
        Inl e \<Rightarrow> Inl e
      | Inr encoded \<Rightarrow> Inr (JStr encoded = hashed))"

subsection \<open>The authentication service\<close>

text \<open>
  \<^verbatim>\<open>generateId()\<close> and \<^verbatim>\<open>new Date().toISOString()\<close> read the clock and the
  random source; the values they return are arguments of the model, in the order
  the body reads them.
\<close>

definition mockAuthAPI_signup ::
  "string \<Rightarrow> string \<Rightarrow> string \<Rightarrow> obj \<Rightarrow> store \<Rightarrow> result" where
  "mockAuthAPI_signup newId now token userData s =
     (let users = getUsers s in
      if find (\<lambda>u. get u ''email'' = get userData ''email'') users \<noteq> None
      then Inr (failure ''Email already registered'', s)
      else
        case hashPassword (get userData ''password'') of
          Inl e \<Rightarrow> Inl (e, s)
        | Inr hashed \<Rightarrow>
            let newUser = [''_id'' \<mapsto> JStr newId,
                           ''name'' \<mapsto> get userData ''name'',
                           ''email'' \<mapsto> get userData ''email'',
                           ''password'' \<mapsto> JStr hashed,
                           ''createdAt'' \<mapsto> JStr now];
                s1 = saveUsers (users @ [newUser]) s;
                userWithoutPassword = newUser(''password'' := None);
                s2 = setToken token s1;
                s3 = setCurrentUser userWithoutPassword s2
            in Inr (ok_data (AuthData token userWithoutPassword), s3))"

definition mockAuthAPI_login :: "string \<Rightarrow> obj \<Rightarrow> store \<Rightarrow> result" where
  "mockAuthAPI_login token credentials s =
     (let users = getUsers s in
      case find (\<lambda>u. get u ''email'' = get credentials ''email'') users of
        None \<Rightarrow> Inr (failure ''Invalid email or password'', s)
      | Some user \<Rightarrow>
          (case verifyPassword (get credentials ''password'') (get user ''password'') of
             Inl e \<Rightarrow> Inl (e, s)
           | Inr matches \<Rightarrow>
               if \<not> matches
               then Inr (failure ''Invalid email or password'', s)
               else
                 let userWithoutPassword = user(''password'' := None);
                     s1 = setToken token s;
                     s2 = setCurrentUser userWithoutPassword s1
                 in Inr (ok_data (AuthData token userWithoutPassword), s2)))"

definition mockAuthAPI_getMe :: "store \<Rightarrow> result" where
  "mockAuthAPI_getMe s =
     (case getCurrentUser s of
        None \<Rightarrow> Inr (failure ''Not authenticated'', s)
      | Some user \<Rightarrow> Inr (ok_data (ObjData user), s))"

definition mockAuthAPI_updateProfile :: "obj \<Rightarrow> store \<Rightarrow> result" where
  "mockAuthAPI_updateProfile userData s =
     (case getCurrentUser s of
        None \<Rightarrow> Inr (failure ''Not authenticated'', s)
      | Some user \<Rightarrow>
          let updatedUser = user ++ userData;
              s1 = setCurrentUser updatedUser s;
              users = getUsers s1;
              s2 = (case findIndex (\<lambda>u. get u ''_id'' = get user ''_id'') users of
                      Some userIndex \<Rightarrow>
                        saveUsers (users[userIndex := (users ! userIndex) ++ userData]) s1
                    | None \<Rightarrow> s1)
          in Inr (ok_data (ObjData updatedUser), s2))"

definition mockAuthAPI_changePassword :: "obj \<Rightarrow> store \<Rightarrow> result" where
  "mockAuthAPI_changePassword passwordData s =
     (case getCurrentUser s of
        None \<Rightarrow> Inr (failure ''Not authenticated'', s)
      | Some user \<Rightarrow>
          let users = getUsers s in
          case findIndex (\<lambda>u. get u ''_id'' = get user ''_id'') users of
            Some userIndex \<Rightarrow>
              (case verifyPassword (get passwordData ''currentPassword'')
                      (get (users ! userIndex) ''password'') of
                 Inl e \<Rightarrow> Inl (e, s)
               | Inr matches \<Rightarrow>
                   if \<not> matches
                   then Inr (failure ''Current password is incorrect'', s)
                   else
                     (case hashPassword (get passwordData ''newPassword'') of
                        Inl e \<Rightarrow> Inl (e, s)
                      | Inr hashed \<Rightarrow>
                          Inr (ok_message ''Password changed successfully'',
                               saveUsers
                                 (users[userIndex :=
                                    (users ! userIndex)(''password'' \<mapsto> JStr hashed)])
                                 s)))
          | None \<Rightarrow> Inr (ok_message ''Password changed successfully'', s))"

definition mockAuthAPI_deleteAccount :: "store \<Rightarrow> result" where
  "mockAuthAPI_deleteAccount s =
     (case getCurrentUser s of
        None \<Rightarrow> Inr (failure ''Not authenticated'', s)
      | Some user \<Rightarrow>
          let filteredUsers = filter (\<lambda>u. get u ''_id'' \<noteq> get user ''_id'') (getUsers s);
              s1 = saveUsers filteredUsers s;
              filteredTasks = filter (\<lambda>t. get t ''userId'' \<noteq> get user ''_id'') (getTasks s1);
              s2 = saveTasks filteredTasks s1;
              s3 = clearCurrentUser s2;
              s4 = removeToken s3
          in Inr (ok_message ''Account deleted successfully'', s4))"

definition mockAuthAPI_logout :: "store \<Rightarrow> result" where
  "mockAuthAPI_logout s =
     (let s1 = clearCurrentUser s;
          s2 = removeToken s1
      in Inr (ok_message ''Logged out successfully'', s2))"

subsection \<open>The platform\<close>

text \<open>
  \<^verbatim>\<open>String.prototype.localeCompare\<close> and \<^verbatim>\<open>toLowerCase\<close>, the time value of
  \<^verbatim>\<open>new Date(v)\<close> (\<open>None\<close> for \<^verbatim>\<open>NaN\<close>) and \<^verbatim>\<open>Array.prototype.sort\<close>
  belong to the platform: the result of \<^verbatim>\<open>localeCompare\<close> depends on the locale,
  \<^verbatim>\<open>toLowerCase\<close> on the Unicode tables, and the order \<^verbatim>\<open>sort\<close> returns is
  left to the engine when the comparator is not a consistent ordering. They are
  parameters of the model, on strings as lists of code units, and a property that
  depends on one of them states what it assumes of it. \<^verbatim>\<open>sort\<close> gets the
  comparator as it reads it (a \<^verbatim>\<open>NaN\<close> result reads as 0) and throws what the
  comparator throws.
\<close>

record platform =
  localeCompare :: "nat list \<Rightarrow> nat list \<Rightarrow> int"
  toLowerCase :: "nat list \<Rightarrow> nat list"
  dateValue :: "jsval \<Rightarrow> int option"
  arraySort :: "(obj \<Rightarrow> obj \<Rightarrow> error + int) \<Rightarrow> obj list \<Rightarrow> error + obj list"

subsection \<open>String methods of the task service and the form\<close>

text \<open>\<^verbatim>\<open>str.includes(sub)\<close>: \<open>sub\<close> occurs in \<open>str\<close> as a contiguous run.\<close>

fun str_includes :: "'a list \<Rightarrow> 'a list \<Rightarrow> bool" where
  "str_includes [] sub = (sub = [])"
| "str_includes (c # cs) sub = (take (length sub) (c # cs) = sub \<or> str_includes cs sub)"

text \<open>
  \<^verbatim>\<open>str.trim()\<close> on the form's strings: the white space and line terminators
  among the code units below 256 are 9 to 13, 32 and 160.
\<close>

definition isWhiteSpace :: "char \<Rightarrow> bool" where
  "isWhiteSpace c =
     (let n = (of_char c :: nat) in (9 \<le> n \<and> n \<le> 13) \<or> n = 32 \<or> n = 160)"

definition trim :: "string \<Rightarrow> string" where
  "trim str = rev (dropWhile isWhiteSpace (rev (dropWhile isWhiteSpace str)))"

subsection \<open>The comparators\<close>

text \<open>
  The difference \<^verbatim>\<open>x - y\<close> of two numbers as a comparator result, \<open>None\<close>
  standing for \<^verbatim>\<open>NaN\<close>: \<^verbatim>\<open>sort\<close> reads a \<^verbatim>\<open>NaN\<close> result as 0.
\<close>

fun numDiff :: "int option \<Rightarrow> int option \<Rightarrow> int" where
  "numDiff (Some x) (Some y) = x - y"
| "numDiff _ _ = 0"

text \<open>
  \<^verbatim>\<open>priorityOrder[p]\<close> for \<^verbatim>\<open>{ high: 1, medium: 2, low: 3 }\<close>, as a number.
  For a value that is none of the three keys the lookup gives \<^verbatim>\<open>undefined\<close> or
  an inherited member of \<^verbatim>\<open>Object.prototype\<close>, which is \<^verbatim>\<open>NaN\<close> in the
  subtraction.
\<close>

definition priorityOrder :: "jsval \<Rightarrow> int option" where
  "priorityOrder p =
     (if p = JStr ''high'' then Some 1
      else if p = JStr ''medium'' then Some 2
      else if p = JStr ''low'' then Some 3
      else None)"

definition cmpNewest :: "platform \<Rightarrow> obj \<Rightarrow> obj \<Rightarrow> error + int" where
  "cmpNewest pf a b =
     Inr (numDiff (dateValue pf (get b ''createdAt'')) (dateValue pf (get a ''createdAt'')))"

definition cmpOldest :: "platform \<Rightarrow> obj \<Rightarrow> obj \<Rightarrow> error + int" where
  "cmpOldest pf a b =
     Inr (numDiff (dateValue pf (get a ''createdAt'')) (dateValue pf (get b ''createdAt'')))"

text \<open>\<^verbatim>\<open>a.title.localeCompare(b.title)\<close> throws unless \<^verbatim>\<open>a.title\<close> is a string.\<close>

definition cmpTitle :: "platform \<Rightarrow> obj \<Rightarrow> obj \<Rightarrow> error + int" where
  "cmpTitle pf a b =
     (if isString (get a ''title'')
      then Inr (localeCompare pf (units (get a ''title'')) (units (get b ''title'')))
      else Inl TypeError)"

definition cmpPriority :: "obj \<Rightarrow> obj \<Rightarrow> error + int" where
  "cmpPriority a b =
     Inr (numDiff (priorityOrder (get a ''priority'')) (priorityOrder (get b ''priority'')))"

subsection \<open>The task service\<close>

text \<open>The callback \<^verbatim>\<open>t => t._id === id && t.userId === user._id\<close>; reading
  \<^verbatim>\<open>user._id\<close> throws when \<^verbatim>\<open>user\<close> is \<^verbatim>\<open>null\<close>.\<close>

definition ownedBy :: "obj option \<Rightarrow> obj \<Rightarrow> error + bool" where
  "ownedBy user t =
     (case user of
        None \<Rightarrow> Inl TypeError
      | Some u \<Rightarrow> Inr (get t ''userId'' = get u ''_id''))"

definition isTaskOf :: "jsval \<Rightarrow> obj option \<Rightarrow> obj \<Rightarrow> error + bool" where
  "isTaskOf taskId user t = (if get t ''_id'' = taskId then ownedBy user t else Inr False)"

text \<open>The search callback; \<^verbatim>\<open>t.title.toLowerCase()\<close> throws unless the title is a
  string, and the description is read only when it is truthy.\<close>

definition matchesSearch :: "platform \<Rightarrow> nat list \<Rightarrow> obj \<Rightarrow> error + bool" where
  "matchesSearch pf searchLower t =
     (if isString (get t ''title'')
      then Inr (str_includes (toLowerCase pf (units (get t ''title''))) searchLower \<or>
                (truthy (get t ''description'') \<and>
                 str_includes (toLowerCase pf (units (get t ''description''))) searchLower))
      else Inl TypeError)"

definition applySort :: "platform \<Rightarrow> jsval \<Rightarrow> obj list \<Rightarrow> error + obj list" where
  "applySort pf sortKey tasks =
     (if \<not> truthy sortKey then Inr tasks
      else if sortKey = JStr ''newest'' then arraySort pf (cmpNewest pf) tasks
      else if sortKey = JStr ''oldest'' then arraySort pf (cmpOldest pf) tasks
      else if sortKey = JStr ''title'' then arraySort pf (cmpTitle pf) tasks
      else if sortKey = JStr ''priority'' then arraySort pf cmpPriority tasks
      else Inr tasks)"

definition mockTaskAPI_getAll :: "platform \<Rightarrow> obj \<Rightarrow> store \<Rightarrow> result" where
  "mockTaskAPI_getAll pf params s =
     (let tasks = getTasks s in
      case getCurrentUser s of
        None \<Rightarrow> Inr (failure ''Not authenticated'', s)
      | Some user \<Rightarrow>
          let tasks1 = filter (\<lambda>t. get t ''userId'' = get user ''_id'') tasks;
              tasks2 = (if truthy (get params ''status'') \<and> get params ''status'' \<noteq> JStr ''all''
                        then filter (\<lambda>t. get t ''status'' = get params ''status'') tasks1
                        else tasks1);
              tasks3 = (if truthy (get params ''priority'') \<and> get params ''priority'' \<noteq> JStr ''all''
                        then filter (\<lambda>t. get t ''priority'' = get params ''priority'') tasks2
                        else tasks2)
          in case (if truthy (get params ''search'')
                   then filterE (matchesSearch pf (toLowerCase pf (units (get params ''search''))))
                          tasks3
                   else Inr tasks3) of
               Inl e \<Rightarrow> Inl (e, s)
             | Inr tasks4 \<Rightarrow>
                 (case applySort pf (get params ''sort'') tasks4 of
                    Inl e \<Rightarrow> Inl (e, s)
                  | Inr tasks5 \<Rightarrow> Inr (ok_data (ListData tasks5 (length tasks5)), s)))"

definition mockTaskAPI_getOne :: "jsval \<Rightarrow> store \<Rightarrow> result" where
  "mockTaskAPI_getOne taskId s =
     (let tasks = getTasks s;
          user = getCurrentUser s
      in case findE (isTaskOf taskId user) tasks of
           Inl e \<Rightarrow> Inl (e, s)
         | Inr None \<Rightarrow> Inr (failure ''Task not found'', s)
         | Inr (Some task) \<Rightarrow> Inr (ok_data (ObjData task), s))"

definition mockTaskAPI_create ::
  "string \<Rightarrow> string \<Rightarrow> string \<Rightarrow> obj \<Rightarrow> store \<Rightarrow> result" where
  "mockTaskAPI_create newId createdNow updatedNow taskData s =
     (case getCurrentUser s of
        None \<Rightarrow> Inr (failure ''Not authenticated'', s)
      | Some user \<Rightarrow>
          let tasks = getTasks s;
              newTask = [''_id'' \<mapsto> JStr newId,
                         ''userId'' \<mapsto> get user ''_id'',
                         ''title'' \<mapsto> get taskData ''title'',
                         ''description'' \<mapsto> js_or (get taskData ''description'') (JStr []),
                         ''status'' \<mapsto> js_or (get taskData ''status'') (JStr ''pending''),
                         ''priority'' \<mapsto> js_or (get taskData ''priority'') (JStr ''medium''),
                         ''dueDate'' \<mapsto> js_or (get taskData ''dueDate'') JNull,
                         ''createdAt'' \<mapsto> JStr createdNow,
                         ''updatedAt'' \<mapsto> JStr updatedNow];
              s1 = saveTasks (tasks @ [newTask]) s
          in Inr (ok_data (ObjData newTask), s1))"

definition mockTaskAPI_update ::
  "string \<Rightarrow> jsval \<Rightarrow> obj \<Rightarrow> store \<Rightarrow> result" where
  "mockTaskAPI_update now taskId taskData s =
     (let tasks = getTasks s;
          user = getCurrentUser s
      in case findIndexE (isTaskOf taskId user) tasks of
           Inl e \<Rightarrow> Inl (e, s)
         | Inr None \<Rightarrow> Inr (failure ''Task not found'', s)
         | Inr (Some taskIndex) \<Rightarrow>
             let updated = ((tasks ! taskIndex) ++ taskData)(''updatedAt'' \<mapsto> JStr now);
                 s1 = saveTasks (tasks[taskIndex := updated]) s
             in Inr (ok_data (ObjData updated), s1))"

definition mockTaskAPI_delete :: "jsval \<Rightarrow> store \<Rightarrow> result" where
  "mockTaskAPI_delete taskId s =
     (let tasks = getTasks s;
          user = getCurrentUser s
      in case findIndexE (isTaskOf taskId user) tasks of
           Inl e \<Rightarrow> Inl (e, s)
         | Inr None \<Rightarrow> Inr (failure ''Task not found'', s)
         | Inr (Some taskIndex) \<Rightarrow>
             Inr (ok_message ''Task deleted successfully'',
                  saveTasks (take taskIndex tasks @ drop (Suc taskIndex) tasks) s))"

definition mockTaskAPI_getStats :: "store \<Rightarrow> result" where
  "mockTaskAPI_getStats s =
     (let tasks = getTasks s;
          user = getCurrentUser s
      in case filterE (ownedBy user) tasks of
           Inl e \<Rightarrow> Inl (e, s)
         | Inr userTasks \<Rightarrow>
             Inr (ok_data (StatsData
                    \<lparr>total = length userTasks,
                     pending = length (filter (\<lambda>t. get t ''status'' = JStr ''pending'') userTasks),
                     in_progress =
                       length (filter (\<lambda>t. get t ''status'' = JStr ''in-progress'') userTasks),
                     completed =
                       length (filter (\<lambda>t. get t ''status'' = JStr ''completed'') userTasks)\<rparr>),
                  s))"

subsection \<open>The task form\<close>

text \<open>
  The form state of \<^verbatim>\<open>Dashboard\<close>: five controlled inputs, each a string.
  \<^verbatim>\<open>validateForm\<close> collects the field errors; \<^verbatim>\<open>handleSubmit\<close> stops when
  there is one and otherwise sends the form state to \<^verbatim>\<open>taskAPI.create\<close> (no task is
  being edited), which the dispatcher hands to \<^verbatim>\<open>mockTaskAPI.create\<close> when the
  backend is not reachable. The \<^verbatim>\<open>try\<close> around the call catches what it throws.
\<close>

record formData =
  title :: string
  description :: string
  status :: string
  priority :: string
  dueDate :: string

definition validateForm :: "formData \<Rightarrow> (string \<times> string) list" where
  "validateForm fd =
     (let errors = [];
          errors1 = (if trim (title fd) = [] then errors @ [(''title'', ''Title is required'')]
                     else if length (title fd) > 100
                     then errors @ [(''title'', ''Title cannot exceed 100 characters'')]
                     else errors);
          errors2 = (if description fd \<noteq> [] \<and> length (description fd) > 500
                     then errors1 @ [(''description'', ''Description cannot exceed 500 characters'')]
                     else errors1)
      in errors2)"

definition formObject :: "formData \<Rightarrow> obj" where
  "formObject fd =
     [''title'' \<mapsto> JStr (title fd),
      ''description'' \<mapsto> JStr (description fd),
      ''status'' \<mapsto> JStr (status fd),
      ''priority'' \<mapsto> JStr (priority fd),
      ''dueDate'' \<mapsto> JStr (dueDate fd)]"

datatype submitted = Rejected "(string \<times> string) list" | Sent "error + envelope"

definition handleSubmit ::
  "string \<Rightarrow> string \<Rightarrow> string \<Rightarrow> formData \<Rightarrow> store \<Rightarrow> submitted \<times> store" where
  "handleSubmit newId createdNow updatedNow fd s =
     (let errors = validateForm fd in
      if length errors > 0 then (Rejected errors, s)
      else
        (case mockTaskAPI_create newId createdNow updatedNow (formObject fd) s of
           Inl (e, s1) \<Rightarrow> (Sent (Inl e), s1)
         | Inr (response, s1) \<Rightarrow> (Sent (Inr response), s1)))"

subsection \<open>The public operations\<close>

text \<open>
  \<^verbatim>\<open>authAPI\<close> and \<^verbatim>\<open>taskAPI\<close> of \<^verbatim>\<open>services/api.js\<close> hand every call to
  the mock service of the same name when the backend is not reachable. A request
  names the operation with its arguments and the clock and identifier values the
  call reads; \<open>run\<close> performs requests one after the other and stops at the first
  exception.
\<close>

datatype request =
    Signup string string string obj
  | Login string obj
  | GetMe
  | UpdateProfile obj
  | ChangePassword obj
  | DeleteAccount
  | Logout
  | GetAll obj
  | GetOne jsval
  | Create string string string obj
  | Update string jsval obj
  | Delete jsval
  | GetStats

fun perform :: "platform \<Rightarrow> request \<Rightarrow> store \<Rightarrow> result" where
  "perform pf (Signup newId now token userData) s = mockAuthAPI_signup newId now token userData s"
| "perform pf (Login token credentials) s = mockAuthAPI_login token credentials s"
| "perform pf GetMe s = mockAuthAPI_getMe s"
| "perform pf (UpdateProfile userData) s = mockAuthAPI_updateProfile userData s"
| "perform pf (ChangePassword passwordData) s = mockAuthAPI_changePassword passwordData s"
| "perform pf DeleteAccount s = mockAuthAPI_deleteAccount s"
| "perform pf Logout s = mockAuthAPI_logout s"
| "perform pf (GetAll params) s = mockTaskAPI_getAll pf params s"
| "perform pf (GetOne taskId) s = mockTaskAPI_getOne taskId s"
| "perform pf (Create newId createdNow updatedNow taskData) s =
     mockTaskAPI_create newId createdNow updatedNow taskData s"
| "perform pf (Update now taskId taskData) s = mockTaskAPI_update now taskId taskData s"
| "perform pf (Delete taskId) s = mockTaskAPI_delete taskId s"
| "perform pf GetStats s = mockTaskAPI_getStats s"

fun run :: "platform \<Rightarrow> request list \<Rightarrow> store \<Rightarrow> error \<times> store + store" where
  "run pf [] s = Inr s"
| "run pf (r # rs) s =
     (case perform pf r s of
        Inl e \<Rightarrow> Inl e
      | Inr (response, s1) \<Rightarrow> run pf rs s1)"

text \<open>The empty localStorage.\<close>

definition store0 :: store where
  "store0 = \<lparr>mock_users = [], mock_tasks = [], mock_currentUser = None, mock_token = None\<rparr>"

section \<open>The specification's notions\<close>

subsection \<open>The listing in the specification's words\<close>

text \<open>
  The tasks of the user that pass the status filter, the priority filter and the
  search, each skipped as the specification says (a filter value counts as absent
  when it is \<^verbatim>\<open>undefined\<close>, \<^verbatim>\<open>null\<close> or the empty string), then ordered
  by the sort key with a stable sort. The search looks for the lower-cased search
  string in the lower-cased title, when the title is a string, and in the
  lower-cased description, when that is a non-empty string. The title order is that
  of a collation key, which is how \<^verbatim>\<open>localeCompare\<close> compares.
\<close>

definition skipped :: "jsval \<Rightarrow> bool" where
  "skipped v = (v = JStr ''all'' \<or> \<not> truthy v)"

definition passesFilters :: "obj \<Rightarrow> obj \<Rightarrow> obj \<Rightarrow> bool" where
  "passesFilters user params t =
     (get t ''userId'' = get user ''_id'' \<and>
      (skipped (get params ''status'') \<or> get t ''status'' = get params ''status'') \<and>
      (skipped (get params ''priority'') \<or> get t ''priority'' = get params ''priority''))"

definition matchesText :: "platform \<Rightarrow> nat list \<Rightarrow> obj \<Rightarrow> bool" where
  "matchesText pf q t =
     ((isString (get t ''title'') \<and>
       str_includes (toLowerCase pf (units (get t ''title''))) (toLowerCase pf q)) \<or>
      (truthy (get t ''description'') \<and>
       str_includes (toLowerCase pf (units (get t ''description''))) (toLowerCase pf q)))"

definition passes :: "platform \<Rightarrow> obj \<Rightarrow> obj \<Rightarrow> obj \<Rightarrow> bool" where
  "passes pf user params t =
     (passesFilters user params t \<and>
      (\<not> truthy (get params ''search'') \<or> matchesText pf (units (get params ''search'')) t))"

definition createdTime :: "platform \<Rightarrow> obj \<Rightarrow> int" where
  "createdTime pf t = (case dateValue pf (get t ''createdAt'') of Some n \<Rightarrow> n | None \<Rightarrow> 0)"

definition rank :: "obj \<Rightarrow> int" where
  "rank t =
     (if get t ''priority'' = JStr ''high'' then 1
      else if get t ''priority'' = JStr ''medium'' then 2
      else if get t ''priority'' = JStr ''low'' then 3
      else 0)"

definition recognised :: "jsval \<Rightarrow> bool" where
  "recognised sortKey =
     (sortKey = JStr ''newest'' \<or> sortKey = JStr ''oldest'' \<or> sortKey = JStr ''title'' \<or>
      sortKey = JStr ''priority'')"

definition ordered ::
  "(nat list \<Rightarrow> 'k::linorder) \<Rightarrow> platform \<Rightarrow> jsval \<Rightarrow> obj list \<Rightarrow> obj list" where
  "ordered collationKey pf sortKey ts =
     (if sortKey = JStr ''newest'' then sort_key (\<lambda>t. - createdTime pf t) ts
      else if sortKey = JStr ''oldest'' then sort_key (createdTime pf) ts
      else if sortKey = JStr ''title'' then sort_key (\<lambda>t. collationKey (units (get t ''title''))) ts
      else if sortKey = JStr ''priority'' then sort_key rank ts
      else ts)"

definition listing ::
  "(nat list \<Rightarrow> 'k::linorder) \<Rightarrow> platform \<Rightarrow> obj \<Rightarrow> obj \<Rightarrow> obj list \<Rightarrow> obj list" where
  "listing collationKey pf user params tasks =
     ordered collationKey pf (get params ''sort'') (filter (passes pf user params) tasks)"

text \<open>
  What a query needs of the stored tasks. A search reads the title of every task of
  the user that passes the status and priority filters, so these titles must be
  strings. A sort compares the tasks that pass all filters by the sort key: their
  created timestamps must be ones that \<^verbatim>\<open>Date\<close> reads, their titles strings,
  or their priorities among \<^verbatim>\<open>high\<close>, \<^verbatim>\<open>medium\<close> and \<^verbatim>\<open>low\<close>. A query
  without search string needs nothing of the titles, and one without a recognised
  sort key nothing for the order.
\<close>

definition searchable :: "obj \<Rightarrow> obj \<Rightarrow> obj list \<Rightarrow> bool" where
  "searchable user params tasks =
     (\<not> truthy (get params ''search'') \<or>
      list_all (\<lambda>t. isString (get t ''title'')) (filter (passesFilters user params) tasks))"

definition sortable :: "platform \<Rightarrow> jsval \<Rightarrow> obj list \<Rightarrow> bool" where
  "sortable pf sortKey ts =
     (if sortKey = JStr ''newest'' \<or> sortKey = JStr ''oldest''
      then list_all (\<lambda>t. dateValue pf (get t ''createdAt'') \<noteq> None) ts
      else if sortKey = JStr ''title'' then list_all (\<lambda>t. isString (get t ''title'')) ts
      else if sortKey = JStr ''priority''
      then list_all (\<lambda>t. priorityOrder (get t ''priority'') \<noteq> None) ts
      else True)"

text \<open>
  What the properties assume of the platform, following ECMAScript. A
  \<^verbatim>\<open>sort\<close> that returns has permuted the array. When the comparator, on the
  elements of the array, never throws and compares by a key in a linear order,
  \<^verbatim>\<open>sort\<close> returns the stable sort by that key; nothing is assumed of the
  order for any other comparator. \<^verbatim>\<open>localeCompare\<close> is the three-way
  comparison of collation keys. A query relies on this only for the comparator that
  its sort key selects.
\<close>

definition permutes ::
  "((obj \<Rightarrow> obj \<Rightarrow> error + int) \<Rightarrow> obj list \<Rightarrow> error + obj list) \<Rightarrow> bool" where
  "permutes srt = (\<forall>cmp ts ys. srt cmp ts = Inr ys \<longrightarrow> mset ys = mset ts)"

definition comparesBy ::
  "(obj \<Rightarrow> obj \<Rightarrow> error + int) \<Rightarrow> (obj \<Rightarrow> 'k::linorder) \<Rightarrow> obj list \<Rightarrow> bool" where
  "comparesBy cmp f ts =
     (\<forall>x \<in> set ts. \<forall>y \<in> set ts.
        \<exists>c. cmp x y = Inr c \<and> (c < 0) = (f x < f y) \<and> (0 < c) = (f y < f x))"

definition stableBy ::
  "((obj \<Rightarrow> obj \<Rightarrow> error + int) \<Rightarrow> obj list \<Rightarrow> error + obj list) \<Rightarrow>
     (obj \<Rightarrow> obj \<Rightarrow> error + int) \<Rightarrow> (obj \<Rightarrow> 'k::linorder) \<Rightarrow> bool" where
  "stableBy srt cmp f = (\<forall>ts. comparesBy cmp f ts \<longrightarrow> srt cmp ts = Inr (sort_key f ts))"

definition collates :: "(nat list \<Rightarrow> 'k::linorder) \<Rightarrow> platform \<Rightarrow> bool" where
  "collates collationKey pf =
     (\<forall>a b. (localeCompare pf a b < 0) = (collationKey a < collationKey b) \<and>
            (0 < localeCompare pf a b) = (collationKey b < collationKey a))"

definition sortsAsSpecified :: "(nat list \<Rightarrow> 'k::linorder) \<Rightarrow> platform \<Rightarrow> jsval \<Rightarrow> bool" where
  "sortsAsSpecified collationKey pf sortKey =
     (if sortKey = JStr ''newest''
      then stableBy (arraySort pf) (cmpNewest pf) (\<lambda>t. - createdTime pf t)
      else if sortKey = JStr ''oldest''
      then stableBy (arraySort pf) (cmpOldest pf) (createdTime pf)
      else if sortKey = JStr ''title''
      then collates collationKey pf \<and>
           stableBy (arraySort pf) (cmpTitle pf) (\<lambda>t. collationKey (units (get t ''title'')))
      else if sortKey = JStr ''priority''
      then stableBy (arraySort pf) cmpPriority rank
      else True)"

subsection \<open>User objects and the password property\<close>

text \<open>
  The password property of a user object, of the session copy and of the patch a
  request carries, and the user object that a response returns.
\<close>

definition passwordFree :: "obj \<Rightarrow> bool" where
  "passwordFree u = (u ''password'' = None)"

definition sessionClean :: "store \<Rightarrow> bool" where
  "sessionClean s = (case getCurrentUser s of None \<Rightarrow> True | Some u \<Rightarrow> passwordFree u)"

fun patchClean :: "request \<Rightarrow> bool" where
  "patchClean (UpdateProfile userData) = passwordFree userData"
| "patchClean _ = True"

fun returnedUser :: "request \<Rightarrow> envelope \<Rightarrow> obj option" where
  "returnedUser (Signup newId now token userData) e =
     (case data e of Some (AuthData k u) \<Rightarrow> Some u | _ \<Rightarrow> None)"
| "returnedUser (Login token credentials) e =
     (case data e of Some (AuthData k u) \<Rightarrow> Some u | _ \<Rightarrow> None)"
| "returnedUser GetMe e = (case data e of Some (ObjData u) \<Rightarrow> Some u | _ \<Rightarrow> None)"
| "returnedUser (UpdateProfile userData) e =
     (case data e of Some (ObjData u) \<Rightarrow> Some u | _ \<Rightarrow> None)"
| "returnedUser _ e = None"

section \<open>A worked scenario\<close>

text \<open>
  The stores and payloads of the specification's example scenario and its variants:
  Ada signs up on the empty store and creates tasks; each later store is the one
  the requests named with it lead to. The platform of the scenario compares strings
  by their code units, lower-cases the letters below 256, knows the three
  timestamps of the scenario, and sorts by stable insertion from the right.
\<close>

definition ordinalCompare :: "nat list \<Rightarrow> nat list \<Rightarrow> int" where
  "ordinalCompare a b = (if a < b then - 1 else if a = b then 0 else 1)"

definition lowerUnit :: "nat \<Rightarrow> nat" where
  "lowerUnit n =
     (if (65 \<le> n \<and> n \<le> 90) \<or> (192 \<le> n \<and> n \<le> 222 \<and> n \<noteq> 215) then n + 32 else n)"

definition scenarioLowerCase :: "nat list \<Rightarrow> nat list" where
  "scenarioLowerCase us = map lowerUnit us"

definition scenarioClock :: "jsval \<Rightarrow> int option" where
  "scenarioClock v =
     (if v = JStr ''2024-01-01T00:00:00.000Z'' then Some 1704067200000
      else if v = JStr ''2024-01-02T00:00:00.000Z'' then Some 1704153600000
      else if v = JStr ''2024-01-03T00:00:00.000Z'' then Some 1704240000000
      else None)"

fun insort_cmp :: "('a \<Rightarrow> 'a \<Rightarrow> error + int) \<Rightarrow> 'a \<Rightarrow> 'a list \<Rightarrow> error + 'a list" where
  "insort_cmp cmp x [] = Inr [x]"
| "insort_cmp cmp x (y # ys) =
     (case cmp x y of
        Inl e \<Rightarrow> Inl e
      | Inr c \<Rightarrow>
          if c \<le> 0 then Inr (x # y # ys)
          else (case insort_cmp cmp x ys of
                  Inl e \<Rightarrow> Inl e
                | Inr r \<Rightarrow> Inr (y # r)))"

fun insertionSort :: "('a \<Rightarrow> 'a \<Rightarrow> error + int) \<Rightarrow> 'a list \<Rightarrow> error + 'a list" where
  "insertionSort cmp [] = Inr []"
| "insertionSort cmp (x # xs) =
     (case insertionSort cmp xs of
        Inl e \<Rightarrow> Inl e
      | Inr r \<Rightarrow> insort_cmp cmp x r)"

definition scenarioPlatform :: platform where
  "scenarioPlatform =
     \<lparr>localeCompare = ordinalCompare, toLowerCase = scenarioLowerCase,
      dateValue = scenarioClock, arraySort = insertionSort\<rparr>"

definition ada :: obj where
  "ada = [''name'' \<mapsto> JStr ''Ada'', ''email'' \<mapsto> JStr ''ada@x.com'',
          ''password'' \<mapsto> JStr ''secret1'']"

definition adaRecord :: obj where
  "adaRecord = [''_id'' \<mapsto> JStr ''u1'', ''name'' \<mapsto> JStr ''Ada'',
                ''email'' \<mapsto> JStr ''ada@x.com'', ''password'' \<mapsto> JStr ''c2VjcmV0MQ=='',
                ''createdAt'' \<mapsto> JStr ''2024-01-01T00:00:00.000Z'']"

definition adaStore :: store where
  "adaStore = \<lparr>mock_users = [adaRecord], mock_tasks = [],
                mock_currentUser = Some (adaRecord(''password'' := None)),
                mock_token = Some ''k1''\<rparr>"



definition rename :: obj where
  "rename = [''name'' \<mapsto> JStr ''Ada L'', ''email'' \<mapsto> JStr ''ada@x.com'']"

definition passwordPatch :: obj where
  "passwordPatch = [''password'' \<mapsto> JStr ''x'']"

definition leakedUser :: obj where
  "leakedUser = adaRecord(''password'' \<mapsto> JStr ''x'')"

definition leakedStore :: store where
  "leakedStore = adaStore\<lparr>mock_currentUser := Some leakedUser, mock_users := [leakedUser]\<rparr>"

definition writeSpec :: obj where
  "writeSpec = [''title'' \<mapsto> JStr ''Write spec'']"

definition task1 :: obj where
  "task1 = [''_id'' \<mapsto> JStr ''t1'', ''userId'' \<mapsto> JStr ''u1'',
            ''title'' \<mapsto> JStr ''Write spec'', ''description'' \<mapsto> JStr [],
            ''status'' \<mapsto> JStr ''pending'', ''priority'' \<mapsto> JStr ''medium'',
            ''dueDate'' \<mapsto> JNull,
            ''createdAt'' \<mapsto> JStr ''2024-01-02T00:00:00.000Z'',
            ''updatedAt'' \<mapsto> JStr ''2024-01-02T00:00:00.000Z'']"

definition taskStore :: store where
  "taskStore = adaStore\<lparr>mock_tasks := [task1]\<rparr>"

definition loggedOutStore :: store where
  "loggedOutStore = taskStore\<lparr>mock_currentUser := None, mock_token := None\<rparr>"

definition retitle :: obj where
  "retitle = [''title'' \<mapsto> JStr ''Write the spec'', ''status'' \<mapsto> JStr ''completed'']"

definition takeover :: obj where
  "takeover = [''userId'' \<mapsto> JStr ''u2'']"

definition task1Taken :: obj where
  "task1Taken = task1(''userId'' \<mapsto> JStr ''u2'', ''updatedAt'' \<mapsto> JStr ''2024-01-03T00:00:00.000Z'')"

definition takenStore :: store where
  "takenStore = taskStore\<lparr>mock_tasks := [task1Taken]\<rparr>"

definition emptyPayload :: obj where
  "emptyPayload = Map.empty"

definition oldNotes :: obj where
  "oldNotes = [''title'' \<mapsto> JStr ''Old notes'', ''status'' \<mapsto> JStr ''archived'']"

definition task2 :: obj where
  "task2 = [''_id'' \<mapsto> JStr ''t2'', ''userId'' \<mapsto> JStr ''u1'',
            ''title'' \<mapsto> JStr ''Old notes'', ''description'' \<mapsto> JStr [],
            ''status'' \<mapsto> JStr ''archived'', ''priority'' \<mapsto> JStr ''medium'',
            ''dueDate'' \<mapsto> JNull,
            ''createdAt'' \<mapsto> JStr ''2024-01-02T00:00:00.000Z'',
            ''updatedAt'' \<mapsto> JStr ''2024-01-02T00:00:00.000Z'']"

definition archiveStore :: store where
  "archiveStore = adaStore\<lparr>mock_tasks := [task2]\<rparr>"

definition untitledTask :: obj where
  "untitledTask = [''_id'' \<mapsto> JStr ''t3'', ''userId'' \<mapsto> JStr ''u1'',
            ''title'' \<mapsto> JUndefined, ''description'' \<mapsto> JStr [],
            ''status'' \<mapsto> JStr ''pending'', ''priority'' \<mapsto> JStr ''medium'',
            ''dueDate'' \<mapsto> JNull,
            ''createdAt'' \<mapsto> JStr ''2024-01-02T00:00:00.000Z'',
            ''updatedAt'' \<mapsto> JStr ''2024-01-02T00:00:00.000Z'']"

definition untitledStore :: store where
  "untitledStore = adaStore\<lparr>mock_tasks := [untitledTask(''title'' := None)]\<rparr>"

definition blankForm :: formData where
  "blankForm = \<lparr>title = ''   '', description = [], status = ''pending'',
                 priority = ''medium'', dueDate = []\<rparr>"

definition specForm :: formData where
  "specForm = \<lparr>title = ''Write spec'', description = [], status = ''pending'',
                priority = ''medium'', dueDate = []\<rparr>"

definition task5 :: obj where
  "task5 = [''_id'' \<mapsto> JStr ''t5'', ''userId'' \<mapsto> JStr ''u1'',
            ''title'' \<mapsto> JStr ''Review draft'', ''description'' \<mapsto> JStr [],
            ''status'' \<mapsto> JStr ''completed'', ''priority'' \<mapsto> JStr ''high'',
            ''dueDate'' \<mapsto> JNull,
            ''createdAt'' \<mapsto> JStr ''2024-01-02T00:00:00.000Z'',
            ''updatedAt'' \<mapsto> JStr ''2024-01-02T00:00:00.000Z'']"

definition task6 :: obj where
  "task6 = [''_id'' \<mapsto> JStr ''t6'', ''userId'' \<mapsto> JStr ''u1'',
            ''title'' \<mapsto> JStr ''Ship release'', ''description'' \<mapsto> JStr ''After the review'',
            ''status'' \<mapsto> JStr ''completed'', ''priority'' \<mapsto> JStr ''low'',
            ''dueDate'' \<mapsto> JNull,
            ''createdAt'' \<mapsto> JStr ''2024-01-03T00:00:00.000Z'',
            ''updatedAt'' \<mapsto> JStr ''2024-01-03T00:00:00.000Z'']"

definition task7 :: obj where
  "task7 = [''_id'' \<mapsto> JStr ''t7'', ''userId'' \<mapsto> JStr ''u2'',
            ''title'' \<mapsto> JStr ''Review budget'', ''description'' \<mapsto> JStr [],
            ''status'' \<mapsto> JStr ''completed'', ''priority'' \<mapsto> JStr ''medium'',
            ''dueDate'' \<mapsto> JNull,
            ''createdAt'' \<mapsto> JStr ''2024-01-03T00:00:00.000Z'',
            ''updatedAt'' \<mapsto> JStr ''2024-01-03T00:00:00.000Z'']"

definition boardStore :: store where
  "boardStore = adaStore\<lparr>mock_tasks := [task1, task5, task6, task7]\<rparr>"

definition byTitle :: obj where
  "byTitle = [''sort'' \<mapsto> JStr ''title'']"

definition pendingOnly :: obj where
  "pendingOnly = [''status'' \<mapsto> JStr ''pending'']"

definition reviewedNewest :: obj where
  "reviewedNewest = [''status'' \<mapsto> JStr ''completed'', ''priority'' \<mapsto> JStr ''all'',
                     ''search'' \<mapsto> JStr ''REVIEW'', ''sort'' \<mapsto> JStr ''newest'']"

definition searchSpec :: obj where
  "searchSpec = [''search'' \<mapsto> JStr ''spec'']"

section \<open>Properties\<close>

subsection \<open>Basic facts\<close>

lemmas store_ops =
  getUsers_def saveUsers_def getTasks_def saveTasks_def getCurrentUser_def
  setCurrentUser_def clearCurrentUser_def setToken_def removeToken_def

lemmas eval_defs =
  get_def jsonify_def js_or_def ok_data_def ok_message_def failure_def
  hashPassword_def verifyPassword_def btoa_def encodable_def b64digit_def b64chars_def


lemma encodable_wide: "\<not> encodable (JWide p n r)"
  by (simp add: encodable_def)



lemma get_jsonify: "get (jsonify ob) k = get ob k"
  by (simp add: get_def jsonify_def split: option.splits jsval.splits)

lemma success_failure: "\<not> success (failure m)"
  by (simp add: failure_def)

lemma success_ok_data: "success (ok_data d)"
  by (simp add: ok_data_def)

lemma success_ok_message: "success (ok_message m)"
  by (simp add: ok_message_def)

lemma findIndex_Some:
  "findIndex P xs = Some i \<Longrightarrow> i < length xs \<and> P (xs ! i) \<and> (\<forall>j<i. \<not> P (xs ! j))"
proof (induction xs arbitrary: i)
  case Nil
  then show ?case by simp
next
  case (Cons x xs)
  show ?case
  proof (cases "P x")
    case True
    with Cons.prems show ?thesis by simp
  next
    case False
    with Cons.prems obtain k where k: "findIndex P xs = Some k" "i = Suc k"
      by auto
    from Cons.IH [OF k(1)] False k(2) show ?thesis
      by (auto simp: nth_Cons split: nat.splits)
  qed
qed

lemma findIndexE_isTaskOf:
  "findIndexE (isTaskOf taskId (Some user)) ts =
     Inr (findIndex (\<lambda>t. get t ''_id'' = taskId \<and> get t ''userId'' = get user ''_id'') ts)"
  by (induction ts) (simp_all add: isTaskOf_def ownedBy_def)

lemma filterE_ownedBy:
  "filterE (ownedBy (Some user)) ts = Inr (filter (\<lambda>t. get t ''userId'' = get user ''_id'') ts)"
  by (induction ts) (simp_all add: ownedBy_def)

lemma filterE_total:
  assumes "\<forall>x \<in> set xs. P x = Inr (Q x)"
  shows "filterE P xs = Inr (filter Q xs)"
  using assms by (induction xs) auto

subsection \<open>The scenario's stores are reached\<close>

lemma adaStore_reached:
  "mockAuthAPI_signup ''u1'' ''2024-01-01T00:00:00.000Z'' ''k1'' ada store0 =
     Inr (ok_data (AuthData ''k1'' (adaRecord(''password'' := None))), adaStore)"
  by (simp add: mockAuthAPI_signup_def store0_def store_ops ada_def adaRecord_def adaStore_def get_def Let_def
      hashPassword_def btoa_def encodable_def b64digit_def b64chars_def jsonify_def ok_data_def
      fun_eq_iff)

lemma taskStore_reached:
  "mockTaskAPI_create ''t1'' ''2024-01-02T00:00:00.000Z'' ''2024-01-02T00:00:00.000Z'' writeSpec adaStore =
     Inr (ok_data (ObjData task1), taskStore)"
  by (simp add: mockTaskAPI_create_def adaStore_def taskStore_def task1_def writeSpec_def adaRecord_def
      store_ops eval_defs Let_def fun_eq_iff)

lemma loggedOutStore_reached:
  "mockAuthAPI_logout taskStore = Inr (ok_message ''Logged out successfully'', loggedOutStore)"
  by (simp add: mockAuthAPI_logout_def loggedOutStore_def store_ops)

lemma archiveStore_reached:
  "mockTaskAPI_create ''t2'' ''2024-01-02T00:00:00.000Z'' ''2024-01-02T00:00:00.000Z'' oldNotes adaStore =
     Inr (ok_data (ObjData task2), archiveStore)"
  by (simp add: mockTaskAPI_create_def adaStore_def archiveStore_def task2_def oldNotes_def adaRecord_def
      store_ops eval_defs Let_def fun_eq_iff)

lemma untitledStore_reached:
  "mockTaskAPI_create ''t3'' ''2024-01-02T00:00:00.000Z'' ''2024-01-02T00:00:00.000Z'' emptyPayload adaStore =
     Inr (ok_data (ObjData untitledTask), untitledStore)"
  by (simp add: mockTaskAPI_create_def adaStore_def untitledStore_def untitledTask_def adaRecord_def
      emptyPayload_def store_ops eval_defs Let_def fun_eq_iff)

subsection \<open>Creating a task\<close>

lemma validateForm_empty:
  "validateForm fd = [] \<longleftrightarrow>
     \<not> (trim (title fd) = [] \<or> length (title fd) > 100 \<or> length (description fd) > 500)"
  by (auto simp: validateForm_def Let_def)

lemma create_with_session:
  assumes "getCurrentUser s = Some user"
  shows "\<exists>newTask.
           mockTaskAPI_create newId createdNow updatedNow taskData s =
             Inr (ok_data (ObjData newTask), saveTasks (getTasks s @ [newTask]) s) \<and>
           get newTask ''_id'' = JStr newId \<and>
           get newTask ''userId'' = get user ''_id'' \<and>
           get newTask ''title'' = get taskData ''title'' \<and>
           get newTask ''description'' = js_or (get taskData ''description'') (JStr []) \<and>
           get newTask ''status'' = js_or (get taskData ''status'') (JStr ''pending'') \<and>
           get newTask ''priority'' = js_or (get taskData ''priority'') (JStr ''medium'') \<and>
           get newTask ''createdAt'' = JStr createdNow \<and>
           get newTask ''updatedAt'' = JStr updatedNow"
proof -
  let ?t = "[''_id'' \<mapsto> JStr newId,
             ''userId'' \<mapsto> get user ''_id'',
             ''title'' \<mapsto> get taskData ''title'',
             ''description'' \<mapsto> js_or (get taskData ''description'') (JStr []),
             ''status'' \<mapsto> js_or (get taskData ''status'') (JStr ''pending''),
             ''priority'' \<mapsto> js_or (get taskData ''priority'') (JStr ''medium''),
             ''dueDate'' \<mapsto> js_or (get taskData ''dueDate'') JNull,
             ''createdAt'' \<mapsto> JStr createdNow,
             ''updatedAt'' \<mapsto> JStr updatedNow]"
  have "mockTaskAPI_create newId createdNow updatedNow taskData s =
      Inr (ok_data (ObjData ?t), saveTasks (getTasks s @ [?t]) s)"
    using assms by (simp add: mockTaskAPI_create_def Let_def)
  moreover have "get ?t ''_id'' = JStr newId" "get ?t ''userId'' = get user ''_id''"
    "get ?t ''title'' = get taskData ''title''"
    "get ?t ''description'' = js_or (get taskData ''description'') (JStr [])"
    "get ?t ''status'' = js_or (get taskData ''status'') (JStr ''pending'')"
    "get ?t ''priority'' = js_or (get taskData ''priority'') (JStr ''medium'')"
    "get ?t ''createdAt'' = JStr createdNow" "get ?t ''updatedAt'' = JStr updatedNow"
    by (simp_all add: get_def)
  ultimately show ?thesis by blast
qed

text \<open>
  Claim C1, as the code has it. \<^verbatim>\<open>mockTaskAPI.create\<close> checks the session and
  nothing else: with a current user it succeeds for any payload, appends the task and
  gives it the identifier, the user's id, status \<^verbatim>\<open>pending\<close> and priority
  \<^verbatim>\<open>medium\<close> where the payload has none, and the two clock readings as created and
  updated timestamps; without a current user it fails and the store is unchanged.
  The title and description limits are those of the form: \<^verbatim>\<open>handleSubmit\<close> calls
  \<^verbatim>\<open>create\<close> only when \<^verbatim>\<open>validateForm\<close> reports nothing, and it reports an
  error exactly when the title is blank or longer than 100 or the description is
  longer than 500; a rejected form leaves the store unchanged.
\<close>

theorem create_validation_in_form:
  "(getCurrentUser s = None \<longrightarrow>
      mockTaskAPI_create newId createdNow updatedNow taskData s =
        Inr (failure ''Not authenticated'', s)) \<and>
   (\<forall>user. getCurrentUser s = Some user \<longrightarrow>
      (\<exists>newTask.
         mockTaskAPI_create newId createdNow updatedNow taskData s =
           Inr (ok_data (ObjData newTask), saveTasks (getTasks s @ [newTask]) s) \<and>
         get newTask ''_id'' = JStr newId \<and>
         get newTask ''userId'' = get user ''_id'' \<and>
         get newTask ''title'' = get taskData ''title'' \<and>
         get newTask ''status'' =
           (if truthy (get taskData ''status'') then get taskData ''status'' else JStr ''pending'') \<and>
         get newTask ''priority'' =
           (if truthy (get taskData ''priority'') then get taskData ''priority'' else JStr ''medium'') \<and>
         get newTask ''createdAt'' = JStr createdNow \<and>
         get newTask ''updatedAt'' = JStr updatedNow)) \<and>
   (trim (title fd) = [] \<or> length (title fd) > 100 \<or> length (description fd) > 500 \<longrightarrow>
      validateForm fd \<noteq> [] \<and>
      handleSubmit newId createdNow updatedNow fd s = (Rejected (validateForm fd), s)) \<and>
   (\<not> (trim (title fd) = [] \<or> length (title fd) > 100 \<or> length (description fd) > 500) \<longrightarrow>
      validateForm fd = [] \<and>
      (\<forall>user. getCurrentUser s = Some user \<longrightarrow>
         (\<exists>newTask.
            handleSubmit newId createdNow updatedNow fd s =
              (Sent (Inr (ok_data (ObjData newTask))), saveTasks (getTasks s @ [newTask]) s) \<and>
            get newTask ''_id'' = JStr newId \<and>
            get newTask ''userId'' = get user ''_id'' \<and>
            get newTask ''title'' = JStr (title fd) \<and>
            get newTask ''createdAt'' = JStr createdNow \<and>
            get newTask ''updatedAt'' = JStr updatedNow)))"
proof (intro conjI impI allI)
  assume "getCurrentUser s = None"
  then show "mockTaskAPI_create newId createdNow updatedNow taskData s =
      Inr (failure ''Not authenticated'', s)"
    by (simp add: mockTaskAPI_create_def)
next
  fix user
  assume "getCurrentUser s = Some user"
  from create_with_session [OF this, of newId createdNow updatedNow taskData]
  show "\<exists>newTask.
         mockTaskAPI_create newId createdNow updatedNow taskData s =
           Inr (ok_data (ObjData newTask), saveTasks (getTasks s @ [newTask]) s) \<and>
         get newTask ''_id'' = JStr newId \<and>
         get newTask ''userId'' = get user ''_id'' \<and>
         get newTask ''title'' = get taskData ''title'' \<and>
         get newTask ''status'' =
           (if truthy (get taskData ''status'') then get taskData ''status'' else JStr ''pending'') \<and>
         get newTask ''priority'' =
           (if truthy (get taskData ''priority'') then get taskData ''priority'' else JStr ''medium'') \<and>
         get newTask ''createdAt'' = JStr createdNow \<and>
         get newTask ''updatedAt'' = JStr updatedNow"
    unfolding js_or_def by blast
next
  assume bad: "trim (title fd) = [] \<or> length (title fd) > 100 \<or> length (description fd) > 500"
  then show "validateForm fd \<noteq> []"
    by (simp add: validateForm_empty)
  then show "handleSubmit newId createdNow updatedNow fd s = (Rejected (validateForm fd), s)"
    by (simp add: handleSubmit_def Let_def)
next
  assume good: "\<not> (trim (title fd) = [] \<or> length (title fd) > 100 \<or> length (description fd) > 500)"
  then show v: "validateForm fd = []"
    by (simp add: validateForm_empty)
  fix user
  assume "getCurrentUser s = Some user"
  from create_with_session [OF this, of newId createdNow updatedNow "formObject fd"]
  obtain newTask where
    c: "mockTaskAPI_create newId createdNow updatedNow (formObject fd) s =
          Inr (ok_data (ObjData newTask), saveTasks (getTasks s @ [newTask]) s)"
    and f: "get newTask ''_id'' = JStr newId" "get newTask ''userId'' = get user ''_id''"
      "get newTask ''title'' = get (formObject fd) ''title''"
      "get newTask ''createdAt'' = JStr createdNow" "get newTask ''updatedAt'' = JStr updatedNow"
    by blast
  have t: "get (formObject fd) ''title'' = JStr (title fd)"
    by (simp add: formObject_def get_def)
  have "handleSubmit newId createdNow updatedNow fd s =
      (Sent (Inr (ok_data (ObjData newTask))), saveTasks (getTasks s @ [newTask]) s)"
    by (simp add: handleSubmit_def Let_def v c)
  with f t show "\<exists>newTask.
            handleSubmit newId createdNow updatedNow fd s =
              (Sent (Inr (ok_data (ObjData newTask))), saveTasks (getTasks s @ [newTask]) s) \<and>
            get newTask ''_id'' = JStr newId \<and>
            get newTask ''userId'' = get user ''_id'' \<and>
            get newTask ''title'' = JStr (title fd) \<and>
            get newTask ''createdAt'' = JStr createdNow \<and>
            get newTask ''updatedAt'' = JStr updatedNow"
    by auto
qed

lemma blankForm_blank: "trim (title blankForm) = []"
  by (simp add: blankForm_def trim_def isWhiteSpace_def)

lemma specForm_fine:
  "\<not> (trim (title specForm) = [] \<or> length (title specForm) > 100 \<or>
      length (description specForm) > 500)"
  by (simp add: specForm_def trim_def isWhiteSpace_def)

theorem create_validation_in_form_witness:
  "getCurrentUser adaStore = Some (adaRecord(''password'' := None)) \<and>
   trim (title blankForm) = [] \<and>
   handleSubmit ''t1'' ''2024-01-02T00:00:00.000Z'' ''2024-01-02T00:00:00.000Z'' blankForm adaStore =
     (Rejected (validateForm blankForm), adaStore) \<and>
   validateForm specForm = [] \<and>
   (\<exists>newTask.
      handleSubmit ''t1'' ''2024-01-02T00:00:00.000Z'' ''2024-01-02T00:00:00.000Z'' specForm adaStore =
        (Sent (Inr (ok_data (ObjData newTask))), saveTasks (getTasks adaStore @ [newTask]) adaStore) \<and>
      get newTask ''title'' = JStr ''Write spec'') \<and>
   (\<exists>newTask.
      mockTaskAPI_create ''t1'' ''2024-01-02T00:00:00.000Z'' ''2024-01-02T00:00:00.000Z'' writeSpec adaStore =
        Inr (ok_data (ObjData newTask), saveTasks (getTasks adaStore @ [newTask]) adaStore) \<and>
      get newTask ''status'' = JStr ''pending'' \<and> get newTask ''priority'' = JStr ''medium'')"
proof -
  have a: "getCurrentUser adaStore = Some (adaRecord(''password'' := None))"
    by (simp add: adaStore_def getCurrentUser_def)
  have t: "title specForm = ''Write spec''"
    by (simp add: specForm_def)
  have d: "\<not> truthy (get writeSpec ''status'')" "\<not> truthy (get writeSpec ''priority'')"
    by (simp_all add: writeSpec_def get_def)
  note th = create_validation_in_form [of adaStore "''t1''" "''2024-01-02T00:00:00.000Z''"
      "''2024-01-02T00:00:00.000Z''"]
  from th [of writeSpec blankForm] blankForm_blank
  have 1: "handleSubmit ''t1'' ''2024-01-02T00:00:00.000Z'' ''2024-01-02T00:00:00.000Z'' blankForm
      adaStore = (Rejected (validateForm blankForm), adaStore)"
    by simp
  from th [of writeSpec specForm] specForm_fine a
  have 2: "validateForm specForm = []"
    and 3: "\<exists>newTask.
      handleSubmit ''t1'' ''2024-01-02T00:00:00.000Z'' ''2024-01-02T00:00:00.000Z'' specForm adaStore =
        (Sent (Inr (ok_data (ObjData newTask))), saveTasks (getTasks adaStore @ [newTask]) adaStore) \<and>
      get newTask ''title'' = JStr ''Write spec''"
    unfolding t [symmetric] by blast+
  from th [of writeSpec specForm] a d
  have 4: "\<exists>newTask.
      mockTaskAPI_create ''t1'' ''2024-01-02T00:00:00.000Z'' ''2024-01-02T00:00:00.000Z'' writeSpec adaStore =
        Inr (ok_data (ObjData newTask), saveTasks (getTasks adaStore @ [newTask]) adaStore) \<and>
      get newTask ''status'' = JStr ''pending'' \<and> get newTask ''priority'' = JStr ''medium''"
    by (metis (no_types, lifting))
  from a blankForm_blank 1 2 3 4 show ?thesis by (intro conjI)
qed

text \<open>
  Claim C1 as stated fails on the code: with Ada's session, \<^verbatim>\<open>create({})\<close>, a
  payload with no title, succeeds and stores a task.
\<close>

theorem create_without_title:
  "get emptyPayload ''title'' = JUndefined \<and>
   getTasks adaStore = [] \<and>
   mockTaskAPI_create ''t3'' ''2024-01-02T00:00:00.000Z'' ''2024-01-02T00:00:00.000Z'' emptyPayload adaStore =
     Inr (ok_data (ObjData untitledTask), untitledStore) \<and>
   success (ok_data (ObjData untitledTask)) \<and>
   length (getTasks untitledStore) = 1"
  by (simp add: mockTaskAPI_create_def adaStore_def untitledStore_def untitledTask_def adaRecord_def
      emptyPayload_def store_ops eval_defs Let_def fun_eq_iff)

subsection \<open>Operations without a current user\<close>

text \<open>
  Claim C2. \<^verbatim>\<open>getAll\<close> and \<^verbatim>\<open>create\<close> test \<^verbatim>\<open>if (!user)\<close> and resolve with
  "Not authenticated"; \<^verbatim>\<open>getOne\<close>, \<^verbatim>\<open>update\<close>, \<^verbatim>\<open>delete\<close> and
  \<^verbatim>\<open>getStats\<close> read \<^verbatim>\<open>user._id\<close> without that test. After signup, one created
  task and a logout, each of the four throws a \<^verbatim>\<open>TypeError\<close> (for the first three,
  when asked for the identifier of a stored task) where the other two return the
  envelope.
\<close>

theorem no_session_throws:
  "run scenarioPlatform
     [Signup ''u1'' ''2024-01-01T00:00:00.000Z'' ''k1'' ada,
      Create ''t1'' ''2024-01-02T00:00:00.000Z'' ''2024-01-02T00:00:00.000Z'' writeSpec,
      Logout] store0 = Inr loggedOutStore \<and>
   getCurrentUser loggedOutStore = None \<and>
   mockTaskAPI_getStats loggedOutStore = Inl (TypeError, loggedOutStore) \<and>
   mockTaskAPI_getOne (JStr ''t1'') loggedOutStore = Inl (TypeError, loggedOutStore) \<and>
   mockTaskAPI_update ''2024-01-03T00:00:00.000Z'' (JStr ''t1'') retitle loggedOutStore = Inl (TypeError, loggedOutStore) \<and>
   mockTaskAPI_delete (JStr ''t1'') loggedOutStore = Inl (TypeError, loggedOutStore) \<and>
   mockTaskAPI_getOne (JStr ''t9'') loggedOutStore = Inr (failure ''Task not found'', loggedOutStore) \<and>
   mockTaskAPI_getAll scenarioPlatform emptyPayload loggedOutStore =
     Inr (failure ''Not authenticated'', loggedOutStore) \<and>
   mockTaskAPI_create ''t4'' ''2024-01-03T00:00:00.000Z'' ''2024-01-03T00:00:00.000Z'' writeSpec
     loggedOutStore = Inr (failure ''Not authenticated'', loggedOutStore)"
proof -
  have reach: "run scenarioPlatform
     [Signup ''u1'' ''2024-01-01T00:00:00.000Z'' ''k1'' ada,
      Create ''t1'' ''2024-01-02T00:00:00.000Z'' ''2024-01-02T00:00:00.000Z'' writeSpec,
      Logout] store0 = Inr loggedOutStore"
    by (simp add: adaStore_reached taskStore_reached loggedOutStore_reached)
  have user: "getCurrentUser loggedOutStore = None"
    and tasks: "getTasks loggedOutStore = [task1]"
    by (simp_all add: loggedOutStore_def taskStore_def store_ops)
  have id: "get task1 ''_id'' = JStr ''t1''"
    by (simp add: task1_def get_def)
  have stats: "mockTaskAPI_getStats loggedOutStore = Inl (TypeError, loggedOutStore)"
    by (simp add: mockTaskAPI_getStats_def user tasks ownedBy_def)
  have one: "mockTaskAPI_getOne (JStr ''t1'') loggedOutStore = Inl (TypeError, loggedOutStore)"
    by (simp add: mockTaskAPI_getOne_def user tasks isTaskOf_def ownedBy_def id)
  have upd: "mockTaskAPI_update ''2024-01-03T00:00:00.000Z'' (JStr ''t1'') retitle loggedOutStore =
      Inl (TypeError, loggedOutStore)"
    by (simp add: mockTaskAPI_update_def user tasks isTaskOf_def ownedBy_def id)
  have del: "mockTaskAPI_delete (JStr ''t1'') loggedOutStore = Inl (TypeError, loggedOutStore)"
    by (simp add: mockTaskAPI_delete_def user tasks isTaskOf_def ownedBy_def id)
  have other: "mockTaskAPI_getOne (JStr ''t9'') loggedOutStore =
      Inr (failure ''Task not found'', loggedOutStore)"
    by (simp add: mockTaskAPI_getOne_def user tasks isTaskOf_def ownedBy_def id)
  have all: "mockTaskAPI_getAll scenarioPlatform emptyPayload loggedOutStore =
      Inr (failure ''Not authenticated'', loggedOutStore)"
    by (simp add: mockTaskAPI_getAll_def user)
  have cre: "mockTaskAPI_create ''t4'' ''2024-01-03T00:00:00.000Z'' ''2024-01-03T00:00:00.000Z''
      writeSpec loggedOutStore = Inr (failure ''Not authenticated'', loggedOutStore)"
    by (simp add: mockTaskAPI_create_def user)
  from reach user stats one upd del other all cre show ?thesis
    by (intro conjI)
qed

subsection \<open>Updating a task\<close>

text \<open>
  Claim C3, as the code has it. For a task owned by the current user,
  \<^verbatim>\<open>update\<close> returns and stores the record with the patch merged over it and
  the updated timestamp set to the clock reading; users and session are as before.
  Every property other than \<^verbatim>\<open>updatedAt\<close> is the patch's where the patch has
  it and the old record's otherwise. So the task's \<^verbatim>\<open>userId\<close> stays the
  current user's when the patch has no \<^verbatim>\<open>userId\<close> property, and is the patch's
  when it has one.
\<close>

theorem update_merges_patch:
  assumes session: "getCurrentUser s = Some user"
      and owned: "findIndex (\<lambda>t. get t ''_id'' = taskId \<and> get t ''userId'' = get user ''_id'')
                    (getTasks s) = Some i"
  shows "\<exists>updated s1.
           mockTaskAPI_update now taskId taskData s = Inr (ok_data (ObjData updated), s1) \<and>
           updated = ((getTasks s ! i) ++ taskData)(''updatedAt'' \<mapsto> JStr now) \<and>
           getTasks s1 = map jsonify ((getTasks s)[i := updated]) \<and>
           getUsers s1 = getUsers s \<and> getCurrentUser s1 = getCurrentUser s \<and>
           get updated ''updatedAt'' = JStr now \<and>
           (\<forall>k. k \<noteq> ''updatedAt'' \<longrightarrow>
              get updated k = (if k \<in> dom taskData then get taskData k else get (getTasks s ! i) k)) \<and>
           (''userId'' \<notin> dom taskData \<longrightarrow>
              get updated ''userId'' = get user ''_id'' \<and>
              get (getTasks s1 ! i) ''userId'' = get user ''_id'') \<and>
           (''userId'' \<in> dom taskData \<longrightarrow> get updated ''userId'' = get taskData ''userId'')"
proof -
  let ?old = "getTasks s ! i"
  let ?updated = "(?old ++ taskData)(''updatedAt'' \<mapsto> JStr now)"
  let ?s1 = "saveTasks ((getTasks s)[i := ?updated]) s"
  from findIndex_Some [OF owned]
  have i: "i < length (getTasks s)" and own: "get ?old ''userId'' = get user ''_id''"
    by simp_all
  have run: "mockTaskAPI_update now taskId taskData s = Inr (ok_data (ObjData ?updated), ?s1)"
    using session owned by (simp add: mockTaskAPI_update_def findIndexE_isTaskOf Let_def)
  have merge: "\<And>k. k \<noteq> ''updatedAt'' \<Longrightarrow>
      get ?updated k = (if k \<in> dom taskData then get taskData k else get ?old k)"
    by (auto simp: get_def map_add_def dom_def split: option.splits)
  have tasks1: "getTasks ?s1 = map jsonify ((getTasks s)[i := ?updated])"
    by (simp add: store_ops)
  have stored: "get (getTasks ?s1 ! i) ''userId'' = get ?updated ''userId''"
    using i by (simp add: tasks1 get_jsonify)
  have keep: "''userId'' \<notin> dom taskData \<Longrightarrow> get ?updated ''userId'' = get user ''_id''"
    using merge [of "''userId''"] own by simp
  show ?thesis
    apply (rule exI [of _ ?updated], rule exI [of _ ?s1])
    apply (intro conjI allI impI)
    subgoal by (rule run)
    subgoal by (rule refl)
    subgoal by (rule tasks1)
    subgoal by (simp add: store_ops)
    subgoal by (simp add: store_ops)
    subgoal by (simp add: get_def)
    subgoal by (rule merge)
    subgoal by (rule keep)
    subgoal using keep stored by simp
    subgoal using merge [of "''userId''"] by simp
    done
qed

theorem update_merges_patch_witness:
  "getCurrentUser taskStore = Some (adaRecord(''password'' := None)) \<and>
   (\<exists>updated s1.
      mockTaskAPI_update ''2024-01-03T00:00:00.000Z'' (JStr ''t1'') retitle taskStore =
        Inr (ok_data (ObjData updated), s1) \<and>
      get updated ''title'' = JStr ''Write the spec'' \<and>
      get updated ''updatedAt'' = JStr ''2024-01-03T00:00:00.000Z'' \<and>
      get updated ''userId'' = JStr ''u1'' \<and>
      get (getTasks s1 ! 0) ''userId'' = JStr ''u1'')"
proof -
  have a: "getCurrentUser taskStore = Some (adaRecord(''password'' := None))"
    by (simp add: taskStore_def adaStore_def getCurrentUser_def)
  have b: "findIndex (\<lambda>t. get t ''_id'' = JStr ''t1'' \<and>
              get t ''userId'' = get (adaRecord(''password'' := None)) ''_id'') (getTasks taskStore) = Some 0"
    by (simp add: taskStore_def adaStore_def task1_def adaRecord_def getTasks_def get_def)
  have c: "''userId'' \<notin> dom retitle" "''title'' \<in> dom retitle" "get retitle ''title'' = JStr ''Write the spec''"
    "get (adaRecord(''password'' := None)) ''_id'' = JStr ''u1''"
    by (simp_all add: retitle_def get_def adaRecord_def)
  from update_merges_patch [OF a b, of "''2024-01-03T00:00:00.000Z''" retitle]
  obtain updated s1 where
    u: "mockTaskAPI_update ''2024-01-03T00:00:00.000Z'' (JStr ''t1'') retitle taskStore =
        Inr (ok_data (ObjData updated), s1)"
    "get updated ''updatedAt'' = JStr ''2024-01-03T00:00:00.000Z''"
    "\<forall>k. k \<noteq> ''updatedAt'' \<longrightarrow>
        get updated k = (if k \<in> dom retitle then get retitle k else get (getTasks taskStore ! 0) k)"
    "''userId'' \<notin> dom retitle \<longrightarrow>
        get updated ''userId'' = get (adaRecord(''password'' := None)) ''_id'' \<and>
        get (getTasks s1 ! 0) ''userId'' = get (adaRecord(''password'' := None)) ''_id''"
    by blast
  from u(3) c have "get updated ''title'' = JStr ''Write the spec''"
    by simp
  with a u(1,2,4) c show ?thesis by auto
qed

text \<open>
  Claim C3 as stated fails on the code: a patch \<^verbatim>\<open>{userId: 'u2'}\<close> on Ada's
  task returns and stores the task with \<^verbatim>\<open>userId\<close> \<^verbatim>\<open>u2\<close>.
\<close>

theorem update_overwrites_userId:
  "get task1 ''userId'' = JStr ''u1'' \<and>
   getCurrentUser taskStore = Some (adaRecord(''password'' := None)) \<and>
   getTasks taskStore = [task1] \<and>
   mockTaskAPI_update ''2024-01-03T00:00:00.000Z'' (JStr ''t1'') takeover taskStore =
     Inr (ok_data (ObjData task1Taken), takenStore) \<and>
   get task1Taken ''userId'' = JStr ''u2''"
  by (simp add: mockTaskAPI_update_def findIndexE_isTaskOf takenStore_def taskStore_def adaStore_def
      task1_def task1Taken_def takeover_def adaRecord_def store_ops eval_defs Let_def fun_eq_iff map_add_def)

subsection \<open>Returned users and the password\<close>

lemma passwordFree_jsonify: "passwordFree u \<Longrightarrow> passwordFree (jsonify u)"
  by (simp add: passwordFree_def jsonify_def)

lemma passwordFree_strip: "passwordFree (u(''password'' := None))"
  by (simp add: passwordFree_def)

lemma passwordFree_merge: "passwordFree u \<Longrightarrow> passwordFree p \<Longrightarrow> passwordFree (u ++ p)"
  by (simp add: passwordFree_def map_add_def)

lemma signup_clean:
  assumes "sessionClean s" and "mockAuthAPI_signup newId now token userData s = Inr (e, s1)"
  shows "sessionClean s1 \<and> (\<forall>k u. data e = Some (AuthData k u) \<longrightarrow> passwordFree u)"
proof (cases "find (\<lambda>u. get u ''email'' = get userData ''email'') (getUsers s) = None")
  case True
  with assms(2) show ?thesis
    by (auto simp: mockAuthAPI_signup_def Let_def store_ops sessionClean_def ok_data_def
        passwordFree_def jsonify_def split: sum.splits)
next
  case False
  with assms show ?thesis
    by (auto simp: mockAuthAPI_signup_def failure_def)
qed

lemma login_clean:
  assumes "sessionClean s" and "mockAuthAPI_login token credentials s = Inr (e, s1)"
  shows "sessionClean s1 \<and> (\<forall>k u. data e = Some (AuthData k u) \<longrightarrow> passwordFree u)"
  using assms
  by (auto simp: mockAuthAPI_login_def Let_def store_ops sessionClean_def ok_data_def failure_def
      split: option.splits if_splits sum.splits intro!: passwordFree_jsonify passwordFree_strip)

lemma getMe_clean:
  assumes "sessionClean s" and "mockAuthAPI_getMe s = Inr (e, s1)"
  shows "sessionClean s1 \<and> (\<forall>u. data e = Some (ObjData u) \<longrightarrow> passwordFree u)"
  using assms
  by (auto simp: mockAuthAPI_getMe_def sessionClean_def ok_data_def failure_def
      split: option.splits)

lemma updateProfile_clean:
  assumes "sessionClean s" and "passwordFree userData"
      and "mockAuthAPI_updateProfile userData s = Inr (e, s1)"
  shows "sessionClean s1 \<and> (\<forall>u. data e = Some (ObjData u) \<longrightarrow> passwordFree u)"
  using assms
  by (auto simp: mockAuthAPI_updateProfile_def Let_def store_ops sessionClean_def ok_data_def
      failure_def split: option.splits intro!: passwordFree_jsonify passwordFree_merge)

lemma changePassword_session:
  "mockAuthAPI_changePassword passwordData s = Inr (e, s1) \<Longrightarrow> getCurrentUser s1 = getCurrentUser s"
  by (auto simp: mockAuthAPI_changePassword_def Let_def store_ops
      split: option.splits if_splits sum.splits)

lemma deleteAccount_clean:
  "sessionClean s \<Longrightarrow> mockAuthAPI_deleteAccount s = Inr (e, s1) \<Longrightarrow> sessionClean s1"
  by (auto simp: mockAuthAPI_deleteAccount_def Let_def store_ops sessionClean_def split: option.splits)

lemma logout_clean: "mockAuthAPI_logout s = Inr (e, s1) \<Longrightarrow> sessionClean s1"
  by (auto simp: mockAuthAPI_logout_def store_ops sessionClean_def)

lemma getAll_session:
  "mockTaskAPI_getAll pf params s = Inr (e, s1) \<Longrightarrow> s1 = s"
  by (auto simp: mockTaskAPI_getAll_def Let_def split: option.splits sum.splits)

lemma getOne_session: "mockTaskAPI_getOne taskId s = Inr (e, s1) \<Longrightarrow> s1 = s"
  by (auto simp: mockTaskAPI_getOne_def Let_def split: option.splits sum.splits)

lemma getStats_session: "mockTaskAPI_getStats s = Inr (e, s1) \<Longrightarrow> s1 = s"
  by (auto simp: mockTaskAPI_getStats_def Let_def split: option.splits sum.splits)

lemma create_session:
  "mockTaskAPI_create newId createdNow updatedNow taskData s = Inr (e, s1) \<Longrightarrow>
     getCurrentUser s1 = getCurrentUser s"
  by (auto simp: mockTaskAPI_create_def Let_def store_ops split: option.splits)

lemma update_session:
  "mockTaskAPI_update now taskId taskData s = Inr (e, s1) \<Longrightarrow> getCurrentUser s1 = getCurrentUser s"
  by (auto simp: mockTaskAPI_update_def Let_def store_ops split: option.splits sum.splits)

lemma delete_session:
  "mockTaskAPI_delete taskId s = Inr (e, s1) \<Longrightarrow> getCurrentUser s1 = getCurrentUser s"
  by (auto simp: mockTaskAPI_delete_def Let_def store_ops split: option.splits sum.splits)

text \<open>
  Claim C4, as the code has it. \<^verbatim>\<open>signup\<close> and \<^verbatim>\<open>login\<close> strip the password from
  the record they return and store as the session copy; \<^verbatim>\<open>getMe\<close> returns that
  copy and \<^verbatim>\<open>updateProfile\<close> returns it merged with the patch. So starting from the
  empty store, as long as no \<^verbatim>\<open>updateProfile\<close> patch carries a \<^verbatim>\<open>password\<close>
  property, the session copy has none, and no operation returns a user object with
  one.
\<close>

theorem returned_user_without_password:
  assumes clean: "sessionClean s"
      and patch: "patchClean r"
      and step: "perform pf r s = Inr (e, s1)"
  shows "sessionClean store0 \<and> sessionClean s1 \<and>
         (\<forall>u. returnedUser r e = Some u \<longrightarrow> passwordFree u)"
proof -
  have base: "sessionClean store0"
    by (simp add: sessionClean_def store0_def getCurrentUser_def)
  have "sessionClean s1 \<and> (\<forall>u. returnedUser r e = Some u \<longrightarrow> passwordFree u)"
  proof (cases r)
    case (Signup newId now token userData)
    with signup_clean [OF clean] step show ?thesis
      by (auto split: option.splits payload.splits)
  next
    case (Login token credentials)
    with login_clean [OF clean] step show ?thesis
      by (auto split: option.splits payload.splits)
  next
    case GetMe
    with getMe_clean [OF clean] step show ?thesis
      by (auto split: option.splits payload.splits)
  next
    case (UpdateProfile userData)
    with updateProfile_clean [OF clean] patch step show ?thesis
      by (auto split: option.splits payload.splits)
  next
    case (ChangePassword passwordData)
    with step have "getCurrentUser s1 = getCurrentUser s" by (auto dest: changePassword_session)
    with clean ChangePassword show ?thesis by (simp add: sessionClean_def)
  next
    case DeleteAccount
    with step have "sessionClean s1" by (auto dest: deleteAccount_clean [OF clean])
    with DeleteAccount show ?thesis by simp
  next
    case Logout
    with step have "sessionClean s1" by (auto dest: logout_clean)
    with Logout show ?thesis by simp
  next
    case (GetAll params)
    with step have "s1 = s" by (auto dest: getAll_session)
    with clean GetAll show ?thesis by simp
  next
    case (GetOne taskId)
    with step have "s1 = s" by (auto dest: getOne_session)
    with clean GetOne show ?thesis by simp
  next
    case (Create newId createdNow updatedNow taskData)
    with step have "getCurrentUser s1 = getCurrentUser s" by (auto dest: create_session)
    with clean Create show ?thesis by (simp add: sessionClean_def)
  next
    case (Update now taskId taskData)
    with step have "getCurrentUser s1 = getCurrentUser s" by (auto dest: update_session)
    with clean Update show ?thesis by (simp add: sessionClean_def)
  next
    case (Delete taskId)
    with step have "getCurrentUser s1 = getCurrentUser s" by (auto dest: delete_session)
    with clean Delete show ?thesis by (simp add: sessionClean_def)
  next
    case GetStats
    with step have "s1 = s" by (auto dest: getStats_session)
    with clean GetStats show ?thesis by simp
  qed
  with base show ?thesis by simp
qed

theorem returned_user_without_password_witness:
  "sessionClean adaStore \<and> patchClean (UpdateProfile rename) \<and>
   (\<exists>e s1. perform scenarioPlatform (UpdateProfile rename) adaStore = Inr (e, s1) \<and>
      sessionClean s1 \<and>
      (\<exists>u. returnedUser (UpdateProfile rename) e = Some u \<and> passwordFree u \<and>
         get u ''name'' = JStr ''Ada L''))"
proof -
  let ?u = "(adaRecord(''password'' := None)) ++ rename"
  have a: "sessionClean adaStore"
    by (simp add: sessionClean_def adaStore_def getCurrentUser_def passwordFree_def)
  have b: "patchClean (UpdateProfile rename)"
    by (simp add: rename_def passwordFree_def)
  obtain s1 where c: "perform scenarioPlatform (UpdateProfile rename) adaStore =
      Inr (ok_data (ObjData ?u), s1)"
    by (simp add: mockAuthAPI_updateProfile_def adaStore_def getCurrentUser_def Let_def)
  have d: "returnedUser (UpdateProfile rename) (ok_data (ObjData ?u)) = Some ?u"
    by (simp add: ok_data_def)
  have e: "get ?u ''name'' = JStr ''Ada L''"
    by (simp add: rename_def get_def)
  from returned_user_without_password [OF a b c] c d e a b show ?thesis
    by blast
qed

text \<open>
  Claim C4 as stated fails on the code: \<^verbatim>\<open>updateProfile({password: 'x'})\<close> in
  Ada's session returns a user object with that password property, and the stored
  record now holds it as its credential.
\<close>

theorem updateProfile_echoes_password:
  "sessionClean adaStore \<and>
   mockAuthAPI_updateProfile passwordPatch adaStore =
     Inr (ok_data (ObjData leakedUser), leakedStore) \<and>
   get leakedUser ''password'' = JStr ''x'' \<and>
   get (getUsers leakedStore ! 0) ''password'' = JStr ''x'' \<and>
   \<not> passwordFree leakedUser"
  by (simp add: mockAuthAPI_updateProfile_def sessionClean_def passwordFree_def adaStore_def
      leakedStore_def leakedUser_def passwordPatch_def adaRecord_def store_ops eval_defs
      Let_def fun_eq_iff map_add_def)

subsection \<open>Signup with a registered email\<close>

text \<open>
  Claim C5. When some stored user already has the email of the request, \<^verbatim>\<open>signup\<close>
  resolves with the unsuccessful envelope "Email already registered" and the store
  is the one before the call: no user added, no current user set, no token written.
\<close>

theorem signup_conflict:
  assumes "\<exists>u \<in> set (getUsers s). get u ''email'' = get userData ''email''"
  shows "mockAuthAPI_signup newId now token userData s =
           Inr (failure ''Email already registered'', s) \<and>
         \<not> success (failure ''Email already registered'')"
proof -
  from assms have "find (\<lambda>u. get u ''email'' = get userData ''email'') (getUsers s) \<noteq> None"
    by (auto simp: find_None_iff)
  then show ?thesis
    by (simp add: mockAuthAPI_signup_def success_failure)
qed

theorem signup_conflict_witness:
  "get adaRecord ''email'' = get ada ''email'' \<and>
   mockAuthAPI_signup ''u2'' ''2024-01-02T00:00:00.000Z'' ''k2'' ada adaStore =
     Inr (failure ''Email already registered'', adaStore)"
  using signup_conflict [of adaStore ada "''u2''" "''2024-01-02T00:00:00.000Z''" "''k2''"]
  by (simp add: adaStore_def adaRecord_def ada_def get_def getUsers_def)

subsection \<open>Changing the password with a wrong current password\<close>




subsection \<open>Statistics\<close>

lemma three_buckets:
  assumes "a \<noteq> b" "a \<noteq> c" "b \<noteq> c"
  shows "length (filter (\<lambda>t. f t = a) xs) + length (filter (\<lambda>t. f t = b) xs) +
           length (filter (\<lambda>t. f t = c) xs) \<le> length xs \<and>
         (length (filter (\<lambda>t. f t = a) xs) + length (filter (\<lambda>t. f t = b) xs) +
            length (filter (\<lambda>t. f t = c) xs) = length xs
          \<longleftrightarrow> list_all (\<lambda>t. f t = a \<or> f t = b \<or> f t = c) xs)"
  using assms by (induction xs) auto

text \<open>
  Claim C7, as the code has it. With a current user, \<^verbatim>\<open>getStats\<close> counts over
  exactly that user's tasks: the total, and the tasks whose status is
  \<^verbatim>\<open>pending\<close>, \<^verbatim>\<open>in-progress\<close> and \<^verbatim>\<open>completed\<close>. The three counts never
  exceed the total, and they sum to it exactly when every task of the user has one
  of these three statuses (\<^verbatim>\<open>create\<close> and \<^verbatim>\<open>update\<close> store any status they are
  given).
\<close>

theorem getStats_counts:
  assumes session: "getCurrentUser s = Some user"
  shows "\<exists>st. mockTaskAPI_getStats s = Inr (ok_data (StatsData st), s) \<and>
           total st = length (filter (\<lambda>t. get t ''userId'' = get user ''_id'') (getTasks s)) \<and>
           pending st = length (filter (\<lambda>t. get t ''status'' = JStr ''pending'')
             (filter (\<lambda>t. get t ''userId'' = get user ''_id'') (getTasks s))) \<and>
           in_progress st = length (filter (\<lambda>t. get t ''status'' = JStr ''in-progress'')
             (filter (\<lambda>t. get t ''userId'' = get user ''_id'') (getTasks s))) \<and>
           completed st = length (filter (\<lambda>t. get t ''status'' = JStr ''completed'')
             (filter (\<lambda>t. get t ''userId'' = get user ''_id'') (getTasks s))) \<and>
           pending st + in_progress st + completed st \<le> total st \<and>
           (pending st + in_progress st + completed st = total st \<longleftrightarrow>
              list_all (\<lambda>t. get t ''status'' = JStr ''pending'' \<or>
                          get t ''status'' = JStr ''in-progress'' \<or>
                          get t ''status'' = JStr ''completed'')
                (filter (\<lambda>t. get t ''userId'' = get user ''_id'') (getTasks s)))"
proof -
  let ?mine = "filter (\<lambda>t. get t ''userId'' = get user ''_id'') (getTasks s)"
  let ?st = "\<lparr>total = length ?mine,
              pending = length (filter (\<lambda>t. get t ''status'' = JStr ''pending'') ?mine),
              in_progress = length (filter (\<lambda>t. get t ''status'' = JStr ''in-progress'') ?mine),
              completed = length (filter (\<lambda>t. get t ''status'' = JStr ''completed'') ?mine)\<rparr>"
  have run: "mockTaskAPI_getStats s = Inr (ok_data (StatsData ?st), s)"
    using session by (simp add: mockTaskAPI_getStats_def filterE_ownedBy Let_def)
  have ne: "JStr ''pending'' \<noteq> JStr ''in-progress''" "JStr ''pending'' \<noteq> JStr ''completed''"
    "JStr ''in-progress'' \<noteq> JStr ''completed''"
    by simp_all
  note b = three_buckets [OF ne, of "\<lambda>t. get t ''status''" ?mine]
  show ?thesis
    apply (rule exI [of _ ?st])
    apply (intro conjI)
    subgoal by (rule run)
    subgoal by simp
    subgoal by simp
    subgoal by simp
    subgoal by simp
    subgoal using b by simp
    subgoal using b by simp
    done
qed

theorem getStats_counts_witness:
  "getCurrentUser taskStore = Some (adaRecord(''password'' := None)) \<and>
   mockTaskAPI_getStats taskStore =
     Inr (ok_data (StatsData \<lparr>total = 1, pending = 1, in_progress = 0, completed = 0\<rparr>), taskStore)"
proof -
  have a: "getCurrentUser taskStore = Some (adaRecord(''password'' := None))"
    by (simp add: taskStore_def adaStore_def getCurrentUser_def)
  from getStats_counts [OF a] obtain st where
    st: "mockTaskAPI_getStats taskStore = Inr (ok_data (StatsData st), taskStore)"
    "total st = length (filter (\<lambda>t. get t ''userId'' = get (adaRecord(''password'' := None)) ''_id'')
        (getTasks taskStore))"
    "pending st = length (filter (\<lambda>t. get t ''status'' = JStr ''pending'')
        (filter (\<lambda>t. get t ''userId'' = get (adaRecord(''password'' := None)) ''_id'') (getTasks taskStore)))"
    "in_progress st = length (filter (\<lambda>t. get t ''status'' = JStr ''in-progress'')
        (filter (\<lambda>t. get t ''userId'' = get (adaRecord(''password'' := None)) ''_id'') (getTasks taskStore)))"
    "completed st = length (filter (\<lambda>t. get t ''status'' = JStr ''completed'')
        (filter (\<lambda>t. get t ''userId'' = get (adaRecord(''password'' := None)) ''_id'') (getTasks taskStore)))"
    by blast
  have "st = \<lparr>total = 1, pending = 1, in_progress = 0, completed = 0\<rparr>"
    using st(2-5)
    by (simp add: taskStore_def adaStore_def task1_def adaRecord_def getTasks_def get_def)
  with a st(1) show ?thesis by simp
qed

text \<open>
  Claim C7 as stated fails on the code: after \<^verbatim>\<open>create\<close> with status
  \<^verbatim>\<open>archived\<close> the total is 1 and the three counts are 0.
\<close>

theorem getStats_unknown_status:
  "mockTaskAPI_create ''t2'' ''2024-01-02T00:00:00.000Z'' ''2024-01-02T00:00:00.000Z'' oldNotes adaStore =
     Inr (ok_data (ObjData task2), archiveStore) \<and>
   mockTaskAPI_getStats archiveStore =
     Inr (ok_data (StatsData \<lparr>total = 1, pending = 0, in_progress = 0, completed = 0\<rparr>),
          archiveStore) \<and>
   (0::nat) + 0 + 0 \<noteq> 1"
proof -
  have "mockTaskAPI_getStats archiveStore =
     Inr (ok_data (StatsData \<lparr>total = 1, pending = 0, in_progress = 0, completed = 0\<rparr>),
          archiveStore)"
    by (simp add: mockTaskAPI_getStats_def archiveStore_def adaStore_def task2_def adaRecord_def
        store_ops ownedBy_def get_def)
  with archiveStore_reached show ?thesis by simp
qed

subsection \<open>Listing tasks\<close>

lemma filterE_Inr:
  "filterE P xs = Inr ys \<Longrightarrow>
     (\<forall>x \<in> set xs. \<exists>b. P x = Inr b) \<and> ys = filter (\<lambda>x. P x = Inr True) xs"
proof (induction xs arbitrary: ys)
  case Nil
  then show ?case by simp
next
  case (Cons x xs)
  from Cons.prems obtain b r where b: "P x = Inr b" and r: "filterE P xs = Inr r"
    and ys: "ys = (if b then x # r else r)"
    by (auto split: sum.splits)
  from Cons.IH [OF r] b ys show ?case by auto
qed

lemma matchesSearch_string:
  "isString (get t ''title'') \<Longrightarrow>
     matchesSearch pf (toLowerCase pf q) t = Inr (matchesText pf q t)"
  by (simp add: matchesSearch_def matchesText_def)

lemma matchesSearch_Inr:
  "matchesSearch pf (toLowerCase pf q) t = Inr b \<Longrightarrow> b = matchesText pf q t"
  by (auto simp: matchesSearch_def matchesText_def split: if_splits)

lemma passes_filter:
  "filter (passes pf user params) tasks =
     (if truthy (get params ''search'')
      then filter (matchesText pf (units (get params ''search'')))
             (filter (passesFilters user params) tasks)
      else filter (passesFilters user params) tasks)"
  by (auto simp: passes_def intro!: filter_cong)

lemma search_returned:
  assumes "(if truthy (get params ''search'')
            then filterE (matchesSearch pf (toLowerCase pf (units (get params ''search''))))
                   (filter (passesFilters user params) tasks)
            else Inr (filter (passesFilters user params) tasks)) = Inr tasks4"
  shows "tasks4 = filter (passes pf user params) tasks"
proof (cases "truthy (get params ''search'')")
  case False
  with assms show ?thesis by (simp add: passes_filter)
next
  case True
  let ?F = "filter (passesFilters user params) tasks"
  let ?m = "matchesSearch pf (toLowerCase pf (units (get params ''search'')))"
  from assms True have "filterE ?m ?F = Inr tasks4" by simp
  from filterE_Inr [OF this]
  have all: "\<forall>x \<in> set ?F. \<exists>b. ?m x = Inr b"
    and t4: "tasks4 = filter (\<lambda>x. ?m x = Inr True) ?F"
    by simp_all
  have "filter (\<lambda>x. ?m x = Inr True) ?F = filter (matchesText pf (units (get params ''search''))) ?F"
  proof (rule filter_cong [OF refl])
    fix x
    assume "x \<in> set ?F"
    with all obtain b where b: "?m x = Inr b" by blast
    from matchesSearch_Inr [OF b] b
    show "(?m x = Inr True) = matchesText pf (units (get params ''search'')) x"
      by auto
  qed
  with t4 True show ?thesis by (simp add: passes_filter)
qed

lemma search_returns:
  assumes "searchable user params tasks"
  shows "(if truthy (get params ''search'')
          then filterE (matchesSearch pf (toLowerCase pf (units (get params ''search''))))
                 (filter (passesFilters user params) tasks)
          else Inr (filter (passesFilters user params) tasks)) =
         Inr (filter (passes pf user params) tasks)"
proof (cases "truthy (get params ''search'')")
  case False
  then show ?thesis by (simp add: passes_filter)
next
  case True
  let ?F = "filter (passesFilters user params) tasks"
  from assms True have "\<forall>t \<in> set ?F. isString (get t ''title'')"
    by (simp add: searchable_def list_all_iff)
  then have "\<forall>t \<in> set ?F.
      matchesSearch pf (toLowerCase pf (units (get params ''search''))) t =
        Inr (matchesText pf (units (get params ''search'')) t)"
    by (simp add: matchesSearch_string)
  from filterE_total [OF this] True show ?thesis
    by (simp add: passes_filter)
qed

lemma applySort_permutes:
  assumes "recognised sortKey \<longrightarrow> permutes (arraySort pf)"
      and "applySort pf sortKey ts = Inr ys"
  shows "mset ys = mset ts"
proof (cases "recognised sortKey")
  case False
  with assms(2) show ?thesis
    by (auto simp: applySort_def recognised_def split: if_splits)
next
  case True
  with assms(1) have "\<And>cmp. arraySort pf cmp ts = Inr ys \<Longrightarrow> mset ys = mset ts"
    by (simp add: permutes_def)
  with assms(2) show ?thesis
    by (auto simp: applySort_def split: if_splits)
qed

lemma comparesBy_newest:
  assumes "list_all (\<lambda>t. dateValue pf (get t ''createdAt'') \<noteq> None) ts"
  shows "comparesBy (cmpNewest pf) (\<lambda>t. - createdTime pf t) ts"
  unfolding comparesBy_def
proof (intro ballI)
  fix x y
  assume "x \<in> set ts" and "y \<in> set ts"
  with assms have "dateValue pf (get x ''createdAt'') \<noteq> None"
    and "dateValue pf (get y ''createdAt'') \<noteq> None"
    by (simp_all add: list_all_iff)
  then obtain a b where "dateValue pf (get x ''createdAt'') = Some a"
    and "dateValue pf (get y ''createdAt'') = Some b"
    by blast
  then show "\<exists>c. cmpNewest pf x y = Inr c \<and>
      (c < 0) = (- createdTime pf x < - createdTime pf y) \<and>
      (0 < c) = (- createdTime pf y < - createdTime pf x)"
    by (simp add: cmpNewest_def createdTime_def)
qed

lemma comparesBy_oldest:
  assumes "list_all (\<lambda>t. dateValue pf (get t ''createdAt'') \<noteq> None) ts"
  shows "comparesBy (cmpOldest pf) (createdTime pf) ts"
  unfolding comparesBy_def
proof (intro ballI)
  fix x y
  assume "x \<in> set ts" and "y \<in> set ts"
  with assms have "dateValue pf (get x ''createdAt'') \<noteq> None"
    and "dateValue pf (get y ''createdAt'') \<noteq> None"
    by (simp_all add: list_all_iff)
  then obtain a b where "dateValue pf (get x ''createdAt'') = Some a"
    and "dateValue pf (get y ''createdAt'') = Some b"
    by blast
  then show "\<exists>c. cmpOldest pf x y = Inr c \<and>
      (c < 0) = (createdTime pf x < createdTime pf y) \<and>
      (0 < c) = (createdTime pf y < createdTime pf x)"
    by (simp add: cmpOldest_def createdTime_def)
qed

lemma comparesBy_title:
  "collates collationKey pf \<Longrightarrow> list_all (\<lambda>t. isString (get t ''title'')) ts \<Longrightarrow>
     comparesBy (cmpTitle pf) (\<lambda>t. collationKey (units (get t ''title''))) ts"
  by (simp add: comparesBy_def cmpTitle_def collates_def list_all_iff)

lemma priorityOrder_rank: "priorityOrder (get t ''priority'') \<noteq> None \<Longrightarrow>
    priorityOrder (get t ''priority'') = Some (rank t)"
  by (simp add: priorityOrder_def rank_def split: if_splits)

lemma comparesBy_priority:
  assumes "list_all (\<lambda>t. priorityOrder (get t ''priority'') \<noteq> None) ts"
  shows "comparesBy cmpPriority rank ts"
  unfolding comparesBy_def
proof (intro ballI)
  fix x y
  assume "x \<in> set ts" and "y \<in> set ts"
  with assms have "priorityOrder (get x ''priority'') = Some (rank x)"
    and "priorityOrder (get y ''priority'') = Some (rank y)"
    by (simp_all add: list_all_iff priorityOrder_rank)
  then show "\<exists>c. cmpPriority x y = Inr c \<and>
      (c < 0) = (rank x < rank y) \<and> (0 < c) = (rank y < rank x)"
    by (simp add: cmpPriority_def)
qed

lemma applySort_ordered:
  assumes "sortable pf sortKey ts" and "sortsAsSpecified collationKey pf sortKey"
  shows "applySort pf sortKey ts = Inr (ordered collationKey pf sortKey ts)"
proof -
  consider (newest) "sortKey = JStr ''newest''" | (oldest) "sortKey = JStr ''oldest''"
    | (title) "sortKey = JStr ''title''" | (priority) "sortKey = JStr ''priority''"
    | (other) "\<not> recognised sortKey"
    by (auto simp: recognised_def)
  then show ?thesis
  proof cases
    case newest
    with assms have "comparesBy (cmpNewest pf) (\<lambda>t. - createdTime pf t) ts"
      and "stableBy (arraySort pf) (cmpNewest pf) (\<lambda>t. - createdTime pf t)"
      by (simp_all add: sortable_def sortsAsSpecified_def comparesBy_newest)
    with newest show ?thesis
      by (simp add: stableBy_def applySort_def ordered_def)
  next
    case oldest
    with assms have "comparesBy (cmpOldest pf) (createdTime pf) ts"
      and "stableBy (arraySort pf) (cmpOldest pf) (createdTime pf)"
      by (simp_all add: sortable_def sortsAsSpecified_def comparesBy_oldest)
    with oldest show ?thesis
      by (simp add: stableBy_def applySort_def ordered_def)
  next
    case title
    with assms have "comparesBy (cmpTitle pf) (\<lambda>t. collationKey (units (get t ''title''))) ts"
      and "stableBy (arraySort pf) (cmpTitle pf) (\<lambda>t. collationKey (units (get t ''title'')))"
      by (simp_all add: sortable_def sortsAsSpecified_def comparesBy_title)
    with title show ?thesis
      by (simp add: stableBy_def applySort_def ordered_def)
  next
    case priority
    with assms have "comparesBy cmpPriority rank ts"
      and "stableBy (arraySort pf) cmpPriority rank"
      by (simp_all add: sortable_def sortsAsSpecified_def comparesBy_priority)
    with priority show ?thesis
      by (simp add: stableBy_def applySort_def ordered_def)
  next
    case other
    then show ?thesis
      by (simp add: recognised_def applySort_def ordered_def)
  qed
qed

lemma getAll_steps:
  assumes "getCurrentUser s = Some user"
  shows "mockTaskAPI_getAll pf params s =
    (case (if truthy (get params ''search'')
           then filterE (matchesSearch pf (toLowerCase pf (units (get params ''search''))))
                  (filter (passesFilters user params) (getTasks s))
           else Inr (filter (passesFilters user params) (getTasks s))) of
       Inl e \<Rightarrow> Inl (e, s)
     | Inr tasks4 \<Rightarrow>
         (case applySort pf (get params ''sort'') tasks4 of
            Inl e \<Rightarrow> Inl (e, s)
          | Inr tasks5 \<Rightarrow> Inr (ok_data (ListData tasks5 (length tasks5)), s)))"
  using assms
  by (auto simp: mockTaskAPI_getAll_def Let_def skipped_def passesFilters_def [abs_def])

lemma listing_facts:
  "mset (listing collationKey pf user params tasks) = mset (filter (passes pf user params) tasks) \<and>
   (get params ''sort'' = JStr ''newest'' \<longrightarrow>
      sorted (map (\<lambda>t. - createdTime pf t) (listing collationKey pf user params tasks))) \<and>
   (get params ''sort'' = JStr ''oldest'' \<longrightarrow>
      sorted (map (createdTime pf) (listing collationKey pf user params tasks))) \<and>
   (get params ''sort'' = JStr ''title'' \<longrightarrow>
      sorted (map (\<lambda>t. collationKey (units (get t ''title'')))
        (listing collationKey pf user params tasks))) \<and>
   (get params ''sort'' = JStr ''priority'' \<longrightarrow>
      sorted (map rank (listing collationKey pf user params tasks))) \<and>
   (\<not> recognised (get params ''sort'') \<longrightarrow>
      listing collationKey pf user params tasks = filter (passes pf user params) tasks)"
  by (simp add: listing_def ordered_def recognised_def)

lemma insort_cmp_key:
  assumes "\<forall>y \<in> set ys. \<exists>c. cmp x y = Inr c \<and> (c \<le> 0) = (f x \<le> f y)"
  shows "insort_cmp cmp x ys = Inr (insort_key f x ys)"
  using assms by (induction ys) auto

lemma insort_cmp_mset:
  "insort_cmp cmp x ys = Inr r \<Longrightarrow> mset r = add_mset x (mset ys)"
  by (induction ys arbitrary: r) (auto split: sum.splits if_splits)

lemma insertionSort_mset:
  "insertionSort cmp ts = Inr ys \<Longrightarrow> mset ys = mset ts"
  by (induction ts arbitrary: ys) (auto split: sum.splits dest: insort_cmp_mset)

lemma insertionSort_key:
  assumes "comparesBy cmp f ts"
  shows "insertionSort cmp ts = Inr (sort_key f ts)"
proof -
  have le: "\<forall>x \<in> set ts. \<forall>y \<in> set ts. \<exists>c. cmp x y = Inr c \<and> (c \<le> 0) = (f x \<le> f y)"
  proof (intro ballI)
    fix x y
    assume "x \<in> set ts" and "y \<in> set ts"
    with assms obtain c where "cmp x y = Inr c" and "(0 < c) = (f y < f x)"
      unfolding comparesBy_def by blast
    then show "\<exists>c. cmp x y = Inr c \<and> (c \<le> 0) = (f x \<le> f y)"
      by (auto simp: not_less [symmetric])
  qed
  then show ?thesis
  proof (induction ts)
    case Nil
    then show ?case by simp
  next
    case (Cons x xs)
    then have "insertionSort cmp xs = Inr (sort_key f xs)"
      by simp
    moreover from Cons.prems
    have "\<forall>y \<in> set (sort_key f xs). \<exists>c. cmp x y = Inr c \<and> (c \<le> 0) = (f x \<le> f y)"
      by simp
    ultimately show ?case
      by (simp add: insort_cmp_key)
  qed
qed

lemma scenario_permutes: "permutes (arraySort scenarioPlatform)"
  by (auto simp: permutes_def scenarioPlatform_def dest: insertionSort_mset)

lemma scenario_stableBy: "stableBy (arraySort scenarioPlatform) cmp f"
  by (simp add: stableBy_def scenarioPlatform_def insertionSort_key)

lemma scenario_collates: "collates (\<lambda>us. us) scenarioPlatform"
  by (auto simp: collates_def scenarioPlatform_def ordinalCompare_def)

lemma scenario_sortsAsSpecified: "sortsAsSpecified (\<lambda>us. us) scenarioPlatform sortKey"
  by (simp add: sortsAsSpecified_def scenario_stableBy scenario_collates)

lemma task_fields:
  "get task1 ''userId'' = JStr ''u1''" "get task5 ''userId'' = JStr ''u1''"
  "get task6 ''userId'' = JStr ''u1''" "get task7 ''userId'' = JStr ''u2''"
  "get task1 ''status'' = JStr ''pending''" "get task5 ''status'' = JStr ''completed''"
  "get task6 ''status'' = JStr ''completed''"
  "get task1 ''title'' = JStr ''Write spec''" "get task5 ''title'' = JStr ''Review draft''"
  "get task6 ''title'' = JStr ''Ship release''"
  "get task5 ''description'' = JStr []" "get task6 ''description'' = JStr ''After the review''"
  "get task1 ''priority'' = JStr ''medium''" "get task5 ''priority'' = JStr ''high''"
  "get task6 ''priority'' = JStr ''low''"
  "get task1 ''createdAt'' = JStr ''2024-01-02T00:00:00.000Z''"
  "get task5 ''createdAt'' = JStr ''2024-01-02T00:00:00.000Z''"
  "get task6 ''createdAt'' = JStr ''2024-01-03T00:00:00.000Z''"
  by (simp_all add: task1_def task5_def task6_def task7_def get_def)

lemma review_in_title:
  "str_includes (scenarioLowerCase (units (JStr ''Review draft'')))
     (scenarioLowerCase (units (JStr ''REVIEW'')))"
  by code_simp

lemma review_in_description:
  "str_includes (scenarioLowerCase (units (JStr ''After the review'')))
     (scenarioLowerCase (units (JStr ''REVIEW'')))"
  by code_simp

lemma title_order:
  "units (JStr ''Review draft'') \<le> units (JStr ''Ship release'')"
  "units (JStr ''Review draft'') \<le> units (JStr ''Write spec'')"
  "units (JStr ''Ship release'') \<le> units (JStr ''Write spec'')"
  "\<not> units (JStr ''Write spec'') \<le> units (JStr ''Review draft'')"
  "\<not> units (JStr ''Write spec'') \<le> units (JStr ''Ship release'')"
  "\<not> units (JStr ''Ship release'') \<le> units (JStr ''Review draft'')"
  by code_simp+

lemma scenario_parts:
  "localeCompare scenarioPlatform = ordinalCompare"
  "toLowerCase scenarioPlatform = scenarioLowerCase"
  "dateValue scenarioPlatform = scenarioClock"
  "arraySort scenarioPlatform = insertionSort"
  by (simp_all add: scenarioPlatform_def)

text \<open>
  Claim C8, as the code has it, for a store with a current user.

  Whenever \<^verbatim>\<open>getAll\<close> returns, it leaves the store as it is and returns, with
  their number, exactly the user's tasks that pass the status filter, the priority
  filter and the case-insensitive search on title or description, each skipped as
  specified; in particular only completed tasks for status \<^verbatim>\<open>completed\<close>.

  It returns the listing of the specification, in the order of the stable sort by
  the sort key, when the titles a search reads are strings and the tasks to sort
  carry what the sort key compares; a query without search string and without a
  recognised sort key needs nothing of the stored tasks.

  The listing of the specification is a permutation of the tasks that pass, sorted
  by created time descending or ascending, by the collation key of the title, or
  by priority rank with high before medium before low, and the filtered tasks in
  their order for any other sort value.
\<close>

theorem getAll_lists:
  assumes session: "getCurrentUser s = Some user"
  shows "(\<forall>e s1.
            (recognised (get params ''sort'') \<longrightarrow> permutes (arraySort pf)) \<and>
            mockTaskAPI_getAll pf params s = Inr (e, s1) \<longrightarrow>
            s1 = s \<and>
            (\<exists>ts. e = ok_data (ListData ts (length ts)) \<and>
                  mset ts = mset (filter (passes pf user params) (getTasks s)) \<and>
                  (get params ''status'' = JStr ''completed'' \<longrightarrow>
                     (\<forall>t \<in> set ts. get t ''status'' = JStr ''completed'')))) \<and>
         (searchable user params (getTasks s) \<and>
          sortable pf (get params ''sort'') (filter (passes pf user params) (getTasks s)) \<and>
          sortsAsSpecified collationKey pf (get params ''sort'') \<longrightarrow>
            mockTaskAPI_getAll pf params s =
              Inr (ok_data (ListData (listing collationKey pf user params (getTasks s))
                     (length (listing collationKey pf user params (getTasks s)))), s)) \<and>
         mset (listing collationKey pf user params (getTasks s)) =
           mset (filter (passes pf user params) (getTasks s)) \<and>
         (get params ''sort'' = JStr ''newest'' \<longrightarrow>
            sorted (map (\<lambda>t. - createdTime pf t)
              (listing collationKey pf user params (getTasks s)))) \<and>
         (get params ''sort'' = JStr ''oldest'' \<longrightarrow>
            sorted (map (createdTime pf) (listing collationKey pf user params (getTasks s)))) \<and>
         (get params ''sort'' = JStr ''title'' \<longrightarrow>
            sorted (map (\<lambda>t. collationKey (units (get t ''title'')))
              (listing collationKey pf user params (getTasks s)))) \<and>
         (get params ''sort'' = JStr ''priority'' \<longrightarrow>
            sorted (map rank (listing collationKey pf user params (getTasks s)))) \<and>
         (\<not> recognised (get params ''sort'') \<longrightarrow>
            listing collationKey pf user params (getTasks s) =
              filter (passes pf user params) (getTasks s))"
proof -
  let ?P = "filter (passes pf user params) (getTasks s)"
  let ?L = "listing collationKey pf user params (getTasks s)"
  have returned: "s1 = s \<and>
      (\<exists>ts. e = ok_data (ListData ts (length ts)) \<and> mset ts = mset ?P \<and>
        (get params ''status'' = JStr ''completed'' \<longrightarrow>
           (\<forall>t \<in> set ts. get t ''status'' = JStr ''completed'')))"
    if perm: "recognised (get params ''sort'') \<longrightarrow> permutes (arraySort pf)"
      and ret: "mockTaskAPI_getAll pf params s = Inr (e, s1)" for e s1
  proof -
    from ret obtain tasks4 ts where
      t4: "(if truthy (get params ''search'')
            then filterE (matchesSearch pf (toLowerCase pf (units (get params ''search''))))
                   (filter (passesFilters user params) (getTasks s))
            else Inr (filter (passesFilters user params) (getTasks s))) = Inr tasks4"
      and srt: "applySort pf (get params ''sort'') tasks4 = Inr ts"
      and e: "e = ok_data (ListData ts (length ts))" and s1: "s1 = s"
      unfolding getAll_steps [OF session] by (auto split: sum.splits)
    from search_returned [OF t4] have "tasks4 = ?P" .
    with applySort_permutes [OF perm srt] have m: "mset ts = mset ?P" by simp
    then have "set ts = set ?P" by (rule mset_eq_setD)
    then have "get params ''status'' = JStr ''completed'' \<longrightarrow>
        (\<forall>t \<in> set ts. get t ''status'' = JStr ''completed'')"
      by (auto simp: passes_def passesFilters_def skipped_def)
    with e s1 m show ?thesis by blast
  qed
  have returns: "mockTaskAPI_getAll pf params s = Inr (ok_data (ListData ?L (length ?L)), s)"
    if "searchable user params (getTasks s)"
      and "sortable pf (get params ''sort'') ?P"
      and "sortsAsSpecified collationKey pf (get params ''sort'')"
  proof -
    from applySort_ordered [OF that(2,3)]
    have "applySort pf (get params ''sort'') ?P = Inr ?L"
      by (simp add: listing_def)
    then show ?thesis
      unfolding getAll_steps [OF session] search_returns [OF that(1)] by simp
  qed
  from returned returns listing_facts [of collationKey pf user params "getTasks s"]
  show ?thesis by blast
qed

theorem getAll_lists_witness:
  "getCurrentUser boardStore = Some (adaRecord(''password'' := None)) \<and>
   getTasks boardStore = [task1, task5, task6, task7] \<and>
   mockTaskAPI_getAll scenarioPlatform reviewedNewest boardStore =
     Inr (ok_data (ListData [task6, task5] 2), boardStore) \<and>
   mockTaskAPI_getAll scenarioPlatform byTitle boardStore =
     Inr (ok_data (ListData [task5, task6, task1] 3), boardStore) \<and>
   getCurrentUser untitledStore = Some (adaRecord(''password'' := None)) \<and>
   getTasks untitledStore = [untitledTask(''title'' := None)] \<and>
   mockTaskAPI_getAll scenarioPlatform pendingOnly untitledStore =
     Inr (ok_data (ListData [untitledTask(''title'' := None)] 1), untitledStore)"
proof -
  let ?user = "adaRecord(''password'' := None)"
  let ?untitled = "untitledTask(''title'' := None)"
  have a: "getCurrentUser boardStore = Some ?user"
    and t: "getTasks boardStore = [task1, task5, task6, task7]"
    by (simp_all add: boardStore_def adaStore_def store_ops)
  have a': "getCurrentUser untitledStore = Some ?user"
    and t': "getTasks untitledStore = [?untitled]"
    by (simp_all add: untitledStore_def adaStore_def store_ops)
  have u: "get ?user ''_id'' = JStr ''u1''"
    by (simp add: adaRecord_def get_def)
  have p: "get reviewedNewest ''status'' = JStr ''completed''"
    "get reviewedNewest ''priority'' = JStr ''all''"
    "get reviewedNewest ''search'' = JStr ''REVIEW''"
    "get reviewedNewest ''sort'' = JStr ''newest''"
    by (simp_all add: reviewedNewest_def get_def)
  have q: "get byTitle ''status'' = JUndefined" "get byTitle ''priority'' = JUndefined"
    "get byTitle ''search'' = JUndefined" "get byTitle ''sort'' = JStr ''title''"
    by (simp_all add: byTitle_def get_def)
  have r: "get pendingOnly ''status'' = JStr ''pending''" "get pendingOnly ''priority'' = JUndefined"
    "get pendingOnly ''search'' = JUndefined" "get pendingOnly ''sort'' = JUndefined"
    by (simp_all add: pendingOnly_def get_def)
  have f: "get ?untitled ''userId'' = JStr ''u1''" "get ?untitled ''status'' = JStr ''pending''"
    by (simp_all add: untitledTask_def get_def)
  have l1: "listing (\<lambda>us. us) scenarioPlatform ?user reviewedNewest (getTasks boardStore) =
      [task6, task5]"
    and p1: "filter (passes scenarioPlatform ?user reviewedNewest) (getTasks boardStore) =
      [task5, task6]"
    and s1: "searchable ?user reviewedNewest (getTasks boardStore)"
    by (simp_all add: listing_def ordered_def passes_def passesFilters_def skipped_def
        matchesText_def searchable_def createdTime_def scenario_parts scenarioClock_def
        t u p task_fields review_in_title review_in_description del: units.simps)
  have l2: "listing (\<lambda>us. us) scenarioPlatform ?user byTitle (getTasks boardStore) =
      [task5, task6, task1]"
    and p2: "filter (passes scenarioPlatform ?user byTitle) (getTasks boardStore) =
      [task1, task5, task6]"
    and s2: "searchable ?user byTitle (getTasks boardStore)"
    by (simp_all add: listing_def ordered_def passes_def passesFilters_def skipped_def
        searchable_def t u q task_fields title_order del: units.simps)
  have l3: "listing (\<lambda>us. us) scenarioPlatform ?user pendingOnly (getTasks untitledStore) =
      [?untitled]"
    and s3: "searchable ?user pendingOnly (getTasks untitledStore)"
    by (simp_all add: listing_def ordered_def passes_def passesFilters_def skipped_def
        searchable_def t' u r f)
  have o1: "sortable scenarioPlatform (get reviewedNewest ''sort'')
      (filter (passes scenarioPlatform ?user reviewedNewest) (getTasks boardStore))"
    by (simp add: p1 p sortable_def scenario_parts scenarioClock_def task_fields)
  have o2: "sortable scenarioPlatform (get byTitle ''sort'')
      (filter (passes scenarioPlatform ?user byTitle) (getTasks boardStore))"
    by (simp add: p2 q sortable_def task_fields)
  have o3: "sortable scenarioPlatform (get pendingOnly ''sort'')
      (filter (passes scenarioPlatform ?user pendingOnly) (getTasks untitledStore))"
    by (simp add: r sortable_def)
  from getAll_lists [OF a, where pf = scenarioPlatform and params = reviewedNewest
      and collationKey = "\<lambda>us. us"] s1 o1 scenario_sortsAsSpecified l1
  have "mockTaskAPI_getAll scenarioPlatform reviewedNewest boardStore =
      Inr (ok_data (ListData [task6, task5] 2), boardStore)"
    by (simp add: numeral_2_eq_2)
  moreover
  from getAll_lists [OF a, where pf = scenarioPlatform and params = byTitle
      and collationKey = "\<lambda>us. us"] s2 o2 scenario_sortsAsSpecified l2
  have "mockTaskAPI_getAll scenarioPlatform byTitle boardStore =
      Inr (ok_data (ListData [task5, task6, task1] 3), boardStore)"
    by (simp add: numeral_3_eq_3)
  moreover
  from getAll_lists [OF a', where pf = scenarioPlatform and params = pendingOnly
      and collationKey = "\<lambda>us. us"] s3 o3 scenario_sortsAsSpecified l3
  have "mockTaskAPI_getAll scenarioPlatform pendingOnly untitledStore =
      Inr (ok_data (ListData [?untitled] 1), untitledStore)"
    by simp
  ultimately show ?thesis using a t a' t' by simp
qed

text \<open>
  Claim C8 as stated fails on the code: the task that \<^verbatim>\<open>create({})\<close> stored has
  no title, and a listing with a search string then throws a \<^verbatim>\<open>TypeError\<close>
  and the store stays as it is.
\<close>

theorem getAll_search_untitled:
  "mockTaskAPI_create ''t3'' ''2024-01-02T00:00:00.000Z'' ''2024-01-02T00:00:00.000Z'' emptyPayload adaStore =
     Inr (ok_data (ObjData untitledTask), untitledStore) \<and>
   get (getTasks untitledStore ! 0) ''title'' = JUndefined \<and>
   mockTaskAPI_getAll scenarioPlatform searchSpec untitledStore = Inl (TypeError, untitledStore)"
proof -
  have "get (getTasks untitledStore ! 0) ''title'' = JUndefined"
    by (simp add: untitledStore_def untitledTask_def store_ops get_def)
  moreover have "mockTaskAPI_getAll scenarioPlatform searchSpec untitledStore =
      Inl (TypeError, untitledStore)"
    by (simp add: mockTaskAPI_getAll_def untitledStore_def untitledTask_def adaStore_def
        adaRecord_def searchSpec_def store_ops get_def matchesSearch_def Let_def)
  ultimately show ?thesis using untitledStore_reached by simp
qed

subsection \<open>Signup, then login\<close>

lemma find_map_jsonify_email:
  "find (\<lambda>u. get u k = v) (map jsonify us) = map_option jsonify (find (\<lambda>u. get u k = v) us)"
  by (induction us) (simp_all add: get_jsonify)

lemma find_append_fresh:
  "\<forall>u \<in> set us. \<not> P u \<Longrightarrow> P x \<Longrightarrow> find P (us @ [x]) = Some x"
  by (induction us) simp_all

text \<open>
  Claim C9. After a successful \<^verbatim>\<open>signup\<close> (any name and password), a \<^verbatim>\<open>login\<close>
  with the same email and password succeeds and returns a user with the identifier
  that \<^verbatim>\<open>signup\<close> returned. The login may come at any later store that holds the
  same users, for instance after a \<^verbatim>\<open>logout\<close>.
\<close>

theorem signup_then_login:
  assumes signup: "mockAuthAPI_signup newId now token userData s = Inr (e, s1)"
      and ok: "success e"
  shows "\<exists>user1. data e = Some (AuthData token user1) \<and>
           (\<forall>token2 credentials s2.
              getUsers s2 = getUsers s1 \<and>
              get credentials ''email'' = get userData ''email'' \<and>
              get credentials ''password'' = get userData ''password'' \<longrightarrow>
              (\<exists>user2 s3.
                 mockAuthAPI_login token2 credentials s2 =
                   Inr (ok_data (AuthData token2 user2), s3) \<and>
                 get user2 ''_id'' = get user1 ''_id''))"
proof -
  let ?P = "\<lambda>u. get u ''email'' = get userData ''email''"
  have fresh: "find ?P (getUsers s) = None"
  proof (rule ccontr)
    assume "find ?P (getUsers s) \<noteq> None"
    with signup have "e = failure ''Email already registered''"
      by (simp add: mockAuthAPI_signup_def)
    with ok show False by (simp add: success_failure)
  qed
  obtain hashed where hashed: "hashPassword (get userData ''password'') = Inr hashed"
  proof (cases "hashPassword (get userData ''password'')")
    case (Inl x)
    with signup fresh show ?thesis by (simp add: mockAuthAPI_signup_def)
  next
    case (Inr h)
    then show ?thesis by (rule that)
  qed
  let ?new = "[''_id'' \<mapsto> JStr newId, ''name'' \<mapsto> get userData ''name'',
               ''email'' \<mapsto> get userData ''email'',
               ''password'' \<mapsto> JStr hashed,
               ''createdAt'' \<mapsto> JStr now]"
  from signup fresh hashed have e: "e = ok_data (AuthData token (?new(''password'' := None)))"
    and s1: "getUsers s1 = map jsonify (getUsers s @ [?new])"
    by (auto simp: mockAuthAPI_signup_def Let_def store_ops)
  have Pnew: "?P ?new" by (simp add: get_def)
  from fresh have none: "\<forall>u \<in> set (getUsers s). \<not> ?P u"
    by (simp add: find_None_iff)
  have found: "find ?P (getUsers s1) = Some (jsonify ?new)"
    unfolding s1 find_map_jsonify_email
    using find_append_fresh [of "getUsers s" ?P ?new, OF none Pnew] by simp
  have pw: "get (jsonify ?new) ''password'' = JStr hashed"
    by (simp add: get_jsonify) (simp add: get_def)
  have verify: "verifyPassword (get userData ''password'') (JStr hashed) = Inr True"
    using hashed by (simp add: verifyPassword_def hashPassword_def)
  have id1: "get ((jsonify ?new)(''password'' := None)) ''_id'' = JStr newId"
    by (simp add: get_def jsonify_def)
  have id2: "get (?new(''password'' := None)) ''_id'' = JStr newId"
    by (simp add: get_def)
  show ?thesis
  proof (intro exI conjI allI impI)
    show "data e = Some (AuthData token (?new(''password'' := None)))"
      by (simp add: e ok_data_def)
  next
    fix token2 credentials s2
    assume h: "getUsers s2 = getUsers s1 \<and>
              get credentials ''email'' = get userData ''email'' \<and>
              get credentials ''password'' = get userData ''password''"
    show "mockAuthAPI_login token2 credentials s2 =
            Inr (ok_data (AuthData token2 ((jsonify ?new)(''password'' := None))),
                 setCurrentUser ((jsonify ?new)(''password'' := None)) (setToken token2 s2))"
      using h found pw verify
      by (simp add: mockAuthAPI_login_def Let_def)
  next
    show "get ((jsonify ?new)(''password'' := None)) ''_id'' = get (?new(''password'' := None)) ''_id''"
      by (simp only: id1 id2)
  qed
qed

theorem signup_then_login_witness:
  "mockAuthAPI_signup ''u1'' ''2024-01-01T00:00:00.000Z'' ''k1'' ada store0 =
     Inr (ok_data (AuthData ''k1'' (adaRecord(''password'' := None))), adaStore) \<and>
   success (ok_data (AuthData ''k1'' (adaRecord(''password'' := None)))) \<and>
   (\<exists>user2 s3.
      mockAuthAPI_login ''k2'' ada adaStore = Inr (ok_data (AuthData ''k2'' user2), s3) \<and>
      get user2 ''_id'' = JStr ''u1'')"
proof -
  have ok: "success (ok_data (AuthData ''k1'' (adaRecord(''password'' := None))))"
    by (rule success_ok_data)
  have id: "get (adaRecord(''password'' := None)) ''_id'' = JStr ''u1''"
    by (simp add: adaRecord_def get_def)
  from signup_then_login [OF adaStore_reached ok]
  have "\<exists>user2 s3.
      mockAuthAPI_login ''k2'' ada adaStore = Inr (ok_data (AuthData ''k2'' user2), s3) \<and>
      get user2 ''_id'' = get (adaRecord(''password'' := None)) ''_id''"
    by (simp add: ok_data_def)
  with adaStore_reached ok id show ?thesis by simp
qed

subsection \<open>Logout\<close>

text \<open>
  Claim C10. \<^verbatim>\<open>logout\<close> is total and idempotent: in any store, with or without a
  session or a token, it resolves with a successful envelope, the store it leaves
  has no current user and no token (users and tasks are as before), and a second
  call resolves with the same envelope and leaves that store as it is.
\<close>

theorem logout_total_idempotent:
  "\<exists>e s1. mockAuthAPI_logout s = Inr (e, s1) \<and> success e \<and>
      getCurrentUser s1 = None \<and> mock_token s1 = None \<and>
      getUsers s1 = getUsers s \<and> getTasks s1 = getTasks s \<and>
      mockAuthAPI_logout s1 = Inr (e, s1)"
  by (simp add: mockAuthAPI_logout_def store_ops success_ok_message)

end
